theory Spec2Isabelle
  imports Complex_Main
begin

section \<open>Financial portal data extractor: a model of \<^verbatim>\<open>extrator_portal.py\<close>\<close>

text \<open>
  The script drives a browser, a file system and two spreadsheet files. None of these is
  code of the script, so each outside call is a parameter of the model: a function of a
  hidden outside state that returns the next outside state and either the class name of
  the exception the call raised or its result. Everything the script itself does (the
  dictionary look-ups, the \<^verbatim>\<open>try\<close> blocks, the loop, the log lines it formats)
  is written out.

  A Python \<^verbatim>\<open>str\<close> is a \<^typ>\<open>string\<close> whose characters are code points
  below 256, so an accented letter of a message is one character.
\<close>

subsection \<open>Exceptions\<close>

text \<open>
  Instances of subclasses of \<^verbatim>\<open>Exception\<close>. The first four are raised by the
  script or by the interpreter on the script's own expressions; \<open>External n\<close> is an
  exception of class \<open>n\<close> raised inside a library call. Signals that are not
  subclasses of \<^verbatim>\<open>Exception\<close> (a keyboard interrupt, an exit request) are not part
  of the model.
\<close>

datatype exn =
    KeyError string
  | FileNotFoundError string
  | ValueError string
  | ZeroDivisionError
  | External string

text \<open>\<^verbatim>\<open>type(exc).__name__\<close>\<close>

fun type_name :: "exn \<Rightarrow> string" where
  "type_name (KeyError k) = ''KeyError''"
| "type_name (FileNotFoundError m) = ''FileNotFoundError''"
| "type_name (ValueError m) = ''ValueError''"
| "type_name ZeroDivisionError = ''ZeroDivisionError''"
| "type_name (External n) = n"

subsection \<open>Data\<close>

type_synonym path = string

type_synonym driver = nat

type_synonym elem = nat

text \<open>The dictionary built for one CPF (lines 262-267 and 323-328).\<close>

record resultado =
  CPF :: string
  Status :: string
  ParcelasPagas :: "int option"
  Saldo :: "rat option"

text \<open>What \<^verbatim>\<open>json.load\<close> returns: a dictionary of strings, or something else.\<close>

datatype json = JDict "string \<Rightarrow> string option" | JOther

text \<open>
  What \<^verbatim>\<open>pd.read_excel\<close> returns. A row is the dictionary of
  \<^verbatim>\<open>df.to_dict("records")\<close>; a cell is kept as the text \<^verbatim>\<open>str\<close> gives for it.
\<close>

type_synonym row = "string \<Rightarrow> string option"

record table =
  columns :: "string list"
  records :: "row list"

datatype level = INFO | WARNING | ERROR

datatype log_arg = S string | N nat | Q rat | X exn

text \<open>One call of the \<^verbatim>\<open>logging\<close> module: level, format string, arguments.\<close>

datatype log_entry = Log level string "log_arg list"

subsection \<open>The world\<close>

text \<open>
  \<open>hidden\<close> is the state of everything outside the script (the portal, the browser, the
  operating system). \<open>files\<close> holds the text files the script writes, \<open>sheets\<close> the
  spreadsheets it writes, \<open>logged\<close> its log, \<open>quit_calls\<close> counts the calls of
  \<^verbatim>\<open>driver.quit()\<close>, and \<open>finally_runs\<close> counts the entries into the
  \<^verbatim>\<open>finally\<close> block of \<^verbatim>\<open>executar_extracao\<close>.
\<close>

record 'b world =
  hidden :: 'b
  files :: "path \<Rightarrow> string option"
  sheets :: "path \<Rightarrow> resultado list option"
  logged :: "log_entry list"
  quit_calls :: nat
  finally_runs :: nat

type_synonym ('b, 'a) outside = "'b \<Rightarrow> 'b \<times> (string + 'a)"

record 'b env =
  os_dirname :: "path \<Rightarrow> path"
  os_exists :: "path \<Rightarrow> 'b \<Rightarrow> bool"
  os_makedirs :: "path \<Rightarrow> ('b, unit) outside"
  open_w :: "path \<Rightarrow> ('b, unit) outside"
  open_a :: "path \<Rightarrow> ('b, unit) outside"
  fp_write :: "path \<Rightarrow> string \<Rightarrow> ('b, unit) outside"
  json_load :: "path \<Rightarrow> ('b, json) outside"
  read_excel :: "path \<Rightarrow> ('b, table) outside"
  to_excel :: "path \<Rightarrow> resultado list \<Rightarrow> ('b, unit) outside"
  basic_config :: "path \<Rightarrow> ('b, unit) outside"
  edge :: "path \<Rightarrow> ('b, driver) outside"
  driver_get :: "driver \<Rightarrow> string \<Rightarrow> ('b, unit) outside"
  until_presence :: "driver \<Rightarrow> nat \<Rightarrow> string \<Rightarrow> ('b, elem) outside"
  until_clickable :: "driver \<Rightarrow> nat \<Rightarrow> string \<Rightarrow> ('b, elem) outside"
  find_element :: "driver \<Rightarrow> string \<Rightarrow> ('b, elem) outside"
  elem_clear :: "elem \<Rightarrow> ('b, unit) outside"
  elem_send_keys :: "elem \<Rightarrow> string \<Rightarrow> ('b, unit) outside"
  elem_click :: "elem \<Rightarrow> ('b, unit) outside"
  execute_script :: "driver \<Rightarrow> string \<Rightarrow> elem \<Rightarrow> ('b, unit) outside"
  driver_quit :: "driver \<Rightarrow> ('b, unit) outside"
  time_time :: "'b \<Rightarrow> 'b \<times> rat"

subsection \<open>Statements that may raise\<close>

type_synonym ('b, 'a) stmt = "'b world \<Rightarrow> 'b world \<times> (exn + 'a)"

definition ret :: "'a \<Rightarrow> ('b, 'a) stmt" where
  "ret x w = (w, Inr x)"

definition raise :: "exn \<Rightarrow> ('b, 'a) stmt" where
  "raise e w = (w, Inl e)"

text \<open>Sequencing: an exception of the first statement skips the rest.\<close>

definition bindE :: "('b, 'a) stmt \<Rightarrow> ('a \<Rightarrow> ('b, 'c) stmt) \<Rightarrow> ('b, 'c) stmt" where
  "bindE m f w = (case m w of (w1, Inl e) \<Rightarrow> (w1, Inl e) | (w1, Inr x) \<Rightarrow> f x w1)"

text \<open>A call of the outside: it moves the hidden state and may raise.\<close>

definition call :: "('b, 'a) outside \<Rightarrow> ('b, 'a) stmt" where
  "call f w =
     (case f (hidden w) of
        (b, Inl n) \<Rightarrow> (w\<lparr>hidden := b\<rparr>, Inl (External n))
      | (b, Inr x) \<Rightarrow> (w\<lparr>hidden := b\<rparr>, Inr x))"

definition logging :: "level \<Rightarrow> string \<Rightarrow> log_arg list \<Rightarrow> ('b, unit) stmt" where
  "logging l fmt args w = (w\<lparr>logged := logged w @ [Log l fmt args]\<rparr>, Inr ())"

text \<open>\<^verbatim>\<open>os.path.exists(p)\<close>: it reads the outside and never raises.\<close>

definition path_exists :: "'b env \<Rightarrow> path \<Rightarrow> ('b, bool) stmt" where
  "path_exists env p w = (w, Inr (os_exists env p (hidden w)))"

text \<open>\<^verbatim>\<open>d[k]\<close> on a dictionary\<close>

definition getitem :: "(string \<Rightarrow> 'v option) \<Rightarrow> string \<Rightarrow> ('b, 'v) stmt" where
  "getitem d k = (case d k of None \<Rightarrow> raise (KeyError k) | Some v \<Rightarrow> ret v)"

text \<open>\<^verbatim>\<open>str.strip()\<close>: the white space of Python among the code points below 256.\<close>

definition isspace :: "char \<Rightarrow> bool" where
  "isspace c \<longleftrightarrow> c \<in> set [CHR 0x09, CHR 0x0A, CHR 0x0B, CHR 0x0C, CHR 0x0D,
                        CHR 0x1C, CHR 0x1D, CHR 0x1E, CHR 0x1F, CHR 0x20, CHR 0x85, CHR 0xA0]"

definition strip :: "string \<Rightarrow> string" where
  "strip s = rev (dropWhile isspace (rev (dropWhile isspace s)))"

subsection \<open>Files\<close>

definition content :: "'b world \<Rightarrow> path \<Rightarrow> string" where
  "content w p = (case files w p of None \<Rightarrow> [] | Some c \<Rightarrow> c)"

text \<open>\<^verbatim>\<open>open(p, "w")\<close> truncates, \<^verbatim>\<open>open(p, "a")\<close> keeps what is there.\<close>

definition open_write :: "'b env \<Rightarrow> path \<Rightarrow> ('b, unit) stmt" where
  "open_write env p =
     bindE (call (open_w env p)) (\<lambda>_ w. (w\<lparr>files := (files w)(p \<mapsto> [])\<rparr>, Inr ()))"

definition open_append :: "'b env \<Rightarrow> path \<Rightarrow> ('b, unit) stmt" where
  "open_append env p =
     bindE (call (open_a env p)) (\<lambda>_ w. (w\<lparr>files := (files w)(p \<mapsto> content w p)\<rparr>, Inr ()))"

definition write_str :: "'b env \<Rightarrow> path \<Rightarrow> string \<Rightarrow> ('b, unit) stmt" where
  "write_str env p s =
     bindE (call (fp_write env p s)) (\<lambda>_ w. (w\<lparr>files := (files w)(p \<mapsto> content w p @ s)\<rparr>, Inr ()))"

subsection \<open>Configuration (lines 73-103)\<close>

text \<open>\<^verbatim>\<open>os.getenv(k, default)\<close> on the process environment\<close>

definition getenv :: "(string \<Rightarrow> string option) \<Rightarrow> string \<Rightarrow> string \<Rightarrow> string" where
  "getenv environ k d = (case environ k of None \<Rightarrow> d | Some v \<Rightarrow> v)"

definition obter_configuracoes :: "(string \<Rightarrow> string option) \<Rightarrow> (string \<Rightarrow> string option)" where
  "obter_configuracoes environ =
     [''portal_url'' \<mapsto> getenv environ ''PORTAL_URL'' ''https://portal-financeiro-confidencial.com/login'',
      ''driver_path'' \<mapsto> getenv environ ''DRIVER_PATH'' ''msedgedriver.exe'',
      ''selectors_file'' \<mapsto> getenv environ ''SELECTORS_FILE'' ''selectors.json'',
      ''streaming_path'' \<mapsto> getenv environ ''STREAMING_OUTPUT_PATH'' ''./dados/streaming_saida.txt'']"

definition carregar_selectors :: "'b env \<Rightarrow> path \<Rightarrow> ('b, string \<Rightarrow> string option) stmt" where
  "carregar_selectors env p =
     bindE (path_exists env p) (\<lambda>found.
     if \<not> found
     then raise (FileNotFoundError (''Arquivo de seletores n'' @ [CHR 0xE3] @ ''o encontrado: '' @ p))
     else bindE (call (json_load env p))
            (\<lambda>data. case data of
                JOther \<Rightarrow> raise (ValueError (''Arquivo de seletores inv'' @ [CHR 0xE1]
                                    @ ''lido. Esperado um JSON com chave/valor.''))
              | JDict d \<Rightarrow> ret d))"

subsection \<open>Selenium: start, login, navigation (lines 110-176)\<close>

definition iniciar_driver :: "'b env \<Rightarrow> path \<Rightarrow> ('b, driver) stmt" where
  "iniciar_driver env driver_path = call (edge env driver_path)"

definition login ::
  "'b env \<Rightarrow> driver \<Rightarrow> (string \<Rightarrow> string option) \<Rightarrow> string \<Rightarrow> string \<Rightarrow> string \<Rightarrow> ('b, unit) stmt" where
  "login env drv sel portal_url usuario senha =
     bindE (logging INFO ''Acessando portal de login...'' []) (\<lambda>_.
     bindE (call (driver_get env drv portal_url)) (\<lambda>_.
     bindE (getitem sel ''campo_usuario'') (\<lambda>l1.
     bindE (call (until_presence env drv 25 l1)) (\<lambda>campo_usuario.
     bindE (getitem sel ''campo_senha'') (\<lambda>l2.
     bindE (call (find_element env drv l2)) (\<lambda>campo_senha.
     bindE (getitem sel ''botao_entrar'') (\<lambda>l3.
     bindE (call (find_element env drv l3)) (\<lambda>botao_entrar.
     bindE (call (elem_clear env campo_usuario)) (\<lambda>_.
     bindE (call (elem_send_keys env campo_usuario usuario)) (\<lambda>_.
     bindE (call (elem_clear env campo_senha)) (\<lambda>_.
     bindE (call (elem_send_keys env campo_senha senha)) (\<lambda>_.
     bindE (call (elem_click env botao_entrar)) (\<lambda>_.
     bindE (getitem sel ''menu_cadastro'') (\<lambda>l4.
     bindE (call (until_presence env drv 25 l4)) (\<lambda>_.
     logging INFO ''Login realizado com sucesso.'' [])))))))))))))))"

definition navegar_para_modulo_consulta ::
  "'b env \<Rightarrow> driver \<Rightarrow> (string \<Rightarrow> string option) \<Rightarrow> ('b, unit) stmt" where
  "navegar_para_modulo_consulta env drv sel =
     bindE (logging INFO (''Navegando at'' @ [CHR 0xE9] @ '' o m'' @ [CHR 0xF3]
                            @ ''dulo de consulta...'') []) (\<lambda>_.
     bindE (getitem sel ''menu_cadastro'') (\<lambda>l1.
     bindE (call (until_clickable env drv 25 l1)) (\<lambda>menu_cadastro.
     bindE (call (elem_click env menu_cadastro)) (\<lambda>_.
     bindE (getitem sel ''menu_proposta'') (\<lambda>l2.
     bindE (call (until_clickable env drv 25 l2)) (\<lambda>menu_proposta.
     bindE (call (elem_click env menu_proposta)) (\<lambda>_.
     logging INFO (''M'' @ [CHR 0xF3] @ ''dulo de consulta acessado.'') [])))))))"

subsection \<open>Input (lines 183-198)\<close>

definition carregar_entrada :: "'b env \<Rightarrow> path \<Rightarrow> ('b, row list) stmt" where
  "carregar_entrada env caminho_entrada =
     bindE (path_exists env caminho_entrada) (\<lambda>found.
     if \<not> found
     then raise (FileNotFoundError (''Arquivo de entrada n'' @ [CHR 0xE3] @ ''o encontrado: ''
                                      @ caminho_entrada))
     else bindE (call (read_excel env caminho_entrada))
            (\<lambda>df. if ''CPF'' \<notin> set (columns df)
                   then raise (ValueError (''A planilha de entrada deve conter, no m'' @ [CHR 0xED]
                                 @ ''nimo, a coluna '' @ [CHR 0x27] @ ''CPF'' @ [CHR 0x27] @ ''.''))
                   else bindE (logging INFO ''Arquivo de entrada carregado. Registros encontrados: %d''
                                 [N (length (records df))])
                          (\<lambda>_. ret (records df))))"

subsection \<open>The stream log (lines 205-221)\<close>

definition cabecalho :: string where
  "cabecalho = ''cpf;status;mensagem'' @ [CHR 0x0A]"

definition inicializar_streaming :: "'b env \<Rightarrow> path \<Rightarrow> ('b, unit) stmt" where
  "inicializar_streaming env streaming_path =
     bindE (call (os_makedirs env (os_dirname env streaming_path))) (\<lambda>_.
     bindE (open_write env streaming_path) (\<lambda>_.
     bindE (write_str env streaming_path cabecalho) (\<lambda>_.
     logging INFO ''Arquivo de streaming inicializado em: %s'' [S streaming_path])))"

definition linha :: "string \<Rightarrow> string \<Rightarrow> string \<Rightarrow> string" where
  "linha cpf status mensagem = cpf @ '';'' @ status @ '';'' @ mensagem @ [CHR 0x0A]"

definition append_streaming :: "'b env \<Rightarrow> path \<Rightarrow> string \<Rightarrow> string \<Rightarrow> string \<Rightarrow> ('b, unit) stmt" where
  "append_streaming env streaming_path cpf status mensagem =
     bindE (open_append env streaming_path) (\<lambda>_.
     write_str env streaming_path (linha cpf status mensagem))"

subsection \<open>Extraction for one CPF (lines 228-270)\<close>

definition extrair_dados_para_cpf ::
  "'b env \<Rightarrow> driver \<Rightarrow> (string \<Rightarrow> string option) \<Rightarrow> string \<Rightarrow> nat \<Rightarrow> ('b, resultado) stmt" where
  "extrair_dados_para_cpf env drv sel cpf timeout =
     bindE (logging INFO (''Iniciando extra'' @ [CHR 0xE7, CHR 0xE3] @ ''o para CPF: %s'') [S cpf]) (\<lambda>_.
     bindE (getitem sel ''campo_cpf'') (\<lambda>l1.
     bindE (call (until_presence env drv timeout l1)) (\<lambda>campo_cpf.
     bindE (call (elem_clear env campo_cpf)) (\<lambda>_.
     bindE (call (elem_send_keys env campo_cpf cpf)) (\<lambda>_.
     bindE (if sel ''botao_consultar'' \<noteq> None
            then bindE (getitem sel ''botao_consultar'') (\<lambda>l2.
                 bindE (call (find_element env drv l2)) (\<lambda>botao_consultar.
                 call (elem_click env botao_consultar)))
            else call (execute_script env drv ''arguments[0].blur();'' campo_cpf)) (\<lambda>_.
     bindE (getitem sel ''grid_resultados'') (\<lambda>l3.
     bindE (call (until_presence env drv timeout l3)) (\<lambda>_.
     bindE (logging INFO (''Extra'' @ [CHR 0xE7, CHR 0xE3] @ ''o conclu'' @ [CHR 0xED]
                            @ ''da para CPF: %s'') [S cpf]) (\<lambda>_.
     ret \<lparr>CPF = cpf, Status = ''ok'', ParcelasPagas = Some 12, Saldo = Some 1235\<rparr>)))))))))"

subsection \<open>The batch (lines 277-356)\<close>

text \<open>\<^verbatim>\<open>time.time()\<close>\<close>

definition now :: "'b env \<Rightarrow> ('b, rat) stmt" where
  "now env w = (case time_time env (hidden w) of (b, t) \<Rightarrow> (w\<lparr>hidden := b\<rparr>, Inr t))"

text \<open>\<^verbatim>\<open>(idx / total) * 100\<close>: Python raises on a zero divisor.\<close>

definition porcentagem :: "nat \<Rightarrow> nat \<Rightarrow> ('b, rat) stmt" where
  "porcentagem idx tot =
     (if tot = 0 then raise ZeroDivisionError else ret (of_nat idx / of_nat tot * 100))"

definition fmt_progresso :: string where
  "fmt_progresso = ''Progresso: %d/%d (%.2f%%) - Tempo decorrido: %.1fs''"

definition concluida :: string where
  "concluida = ''extra'' @ [CHR 0xE7, CHR 0xE3] @ ''o conclu'' @ [CHR 0xED] @ ''da''"

text \<open>
  The \<^verbatim>\<open>try\<close>/\<^verbatim>\<open>except Exception\<close> of lines 317-330: the dictionary, the
  status and the stream message of one CPF.
\<close>

definition tentar_extrair ::
  "'b env \<Rightarrow> driver \<Rightarrow> (string \<Rightarrow> string option) \<Rightarrow> string
     \<Rightarrow> ('b, resultado \<times> string \<times> string) stmt" where
  "tentar_extrair env drv selectors cpf w =
     (case extrair_dados_para_cpf env drv selectors cpf 20 w of
        (w1, Inr dados) \<Rightarrow> (w1, Inr (dados, Status dados, concluida))
      | (w1, Inl exc) \<Rightarrow>
          bindE (logging ERROR ''Falha ao extrair dados para CPF %s: %s'' [S cpf, X exc])
            (\<lambda>_. ret (\<lparr>CPF = cpf, Status = ''erro'', ParcelasPagas = None, Saldo = None\<rparr>,
                       ''erro'', ''erro: '' @ type_name exc)) w1)"

text \<open>
  The body of the \<^verbatim>\<open>for\<close> loop (lines 312-342) for one row; it returns the new
  \<^verbatim>\<open>resultados\<close>. The source appends to \<^verbatim>\<open>resultados\<close> before it appends to
  the stream log; the list is read only after the loop, so an iteration that raises
  leaves no list to return. \<open>tot\<close> is the variable \<^verbatim>\<open>total\<close>.
\<close>

definition iteracao ::
  "'b env \<Rightarrow> driver \<Rightarrow> (string \<Rightarrow> string option) \<Rightarrow> path \<Rightarrow> nat \<Rightarrow> rat \<Rightarrow> nat \<Rightarrow> row
     \<Rightarrow> resultado list \<Rightarrow> ('b, resultado list) stmt" where
  "iteracao env drv selectors streaming_path tot inicio idx row resultados =
     (let cpf = strip (case row ''CPF'' of None \<Rightarrow> [] | Some v \<Rightarrow> v) in
      if cpf = []
      then bindE (logging WARNING (''Registro sem CPF v'' @ [CHR 0xE1]
                                     @ ''lido na linha %d. Ignorando.'') [N idx])
             (\<lambda>_. ret resultados)
      else bindE (tentar_extrair env drv selectors cpf) (\<lambda>(dados, status, mensagem_streaming).
           bindE (append_streaming env streaming_path cpf status mensagem_streaming) (\<lambda>_.
           bindE (now env) (\<lambda>t.
           bindE (porcentagem idx tot) (\<lambda>pct.
           bindE (logging INFO fmt_progresso [N idx, N tot, Q pct, Q (t - inicio)]) (\<lambda>_.
           ret (resultados @ [dados])))))))"

text \<open>\<^verbatim>\<open>for idx, row in enumerate(registros, start=1)\<close>, from position \<open>idx\<close> on.\<close>

fun laco ::
  "'b env \<Rightarrow> driver \<Rightarrow> (string \<Rightarrow> string option) \<Rightarrow> path \<Rightarrow> nat \<Rightarrow> rat \<Rightarrow> nat \<Rightarrow> row list
     \<Rightarrow> resultado list \<Rightarrow> ('b, resultado list) stmt" where
  "laco env drv selectors streaming_path tot inicio idx [] resultados w = (w, Inr resultados)"
| "laco env drv selectors streaming_path tot inicio idx (row # registros) resultados w =
     (case iteracao env drv selectors streaming_path tot inicio idx row resultados w of
        (w1, Inl e) \<Rightarrow> (w1, Inl e)
      | (w1, Inr resultados1) \<Rightarrow>
          laco env drv selectors streaming_path tot inicio (Suc idx) registros resultados1 w1)"

text \<open>\<^verbatim>\<open>df_out.to_excel(caminho_saida, index=False)\<close>\<close>

definition df_to_excel :: "'b env \<Rightarrow> path \<Rightarrow> resultado list \<Rightarrow> ('b, unit) stmt" where
  "df_to_excel env p rs =
     bindE (call (to_excel env p rs)) (\<lambda>_ w. (w\<lparr>sheets := (sheets w)(p \<mapsto> rs)\<rparr>, Inr ()))"

text \<open>Lines 345-351.\<close>

definition consolidar :: "'b env \<Rightarrow> path \<Rightarrow> resultado list \<Rightarrow> ('b, unit) stmt" where
  "consolidar env caminho_saida resultados =
     (if resultados \<noteq> []
      then bindE (call (os_makedirs env (os_dirname env caminho_saida))) (\<lambda>_.
           bindE (df_to_excel env caminho_saida resultados) (\<lambda>_.
           logging INFO (''Arquivo de sa'' @ [CHR 0xED] @ ''da gerado em: %s'') [S caminho_saida]))
      else logging WARNING ''Nenhum resultado foi gerado. Verifique entrada e logs.'' [])"

text \<open>
  The body of the outer \<^verbatim>\<open>try\<close> (lines 302-351). It returns, beside the world and the
  outcome, the local variable \<^verbatim>\<open>driver\<close> as the \<^verbatim>\<open>finally\<close> block will read it.
\<close>

definition corpo ::
  "'b env \<Rightarrow> string \<Rightarrow> string \<Rightarrow> path \<Rightarrow> path \<Rightarrow> (string \<Rightarrow> string option)
     \<Rightarrow> (string \<Rightarrow> string option) \<Rightarrow> path
     \<Rightarrow> 'b world \<Rightarrow> ('b world \<times> driver option) \<times> (exn + unit)" where
  "corpo env usuario senha caminho_entrada caminho_saida cfg selectors streaming_path w =
     (case bindE (getitem cfg ''driver_path'') (iniciar_driver env) w of
        (w1, Inl e) \<Rightarrow> ((w1, None), Inl e)
      | (w1, Inr drv) \<Rightarrow>
          (case bindE (getitem cfg ''portal_url'') (\<lambda>portal_url.
                bindE (login env drv selectors portal_url usuario senha) (\<lambda>_.
                bindE (navegar_para_modulo_consulta env drv selectors) (\<lambda>_.
                bindE (carregar_entrada env caminho_entrada) (\<lambda>registros.
                bindE (now env) (\<lambda>inicio.
                bindE (laco env drv selectors streaming_path (length registros) inicio 1
                         registros []) (\<lambda>resultados.
                consolidar env caminho_saida resultados)))))) w1 of
             (w2, r) \<Rightarrow> ((w2, Some drv), r)))"

text \<open>\<^verbatim>\<open>driver.quit()\<close>: the call is counted, then made.\<close>

definition quit :: "'b env \<Rightarrow> driver \<Rightarrow> ('b, unit) stmt" where
  "quit env drv w = call (driver_quit env drv) (w\<lparr>quit_calls := Suc (quit_calls w)\<rparr>)"

text \<open>Control reaches a \<^verbatim>\<open>finally\<close> block: the entry is counted.\<close>

definition entra_finally :: "('b, unit) stmt" where
  "entra_finally w = (w\<lparr>finally_runs := Suc (finally_runs w)\<rparr>, Inr ())"

text \<open>The \<^verbatim>\<open>finally\<close> block (lines 353-356).\<close>

definition finalizar :: "'b env \<Rightarrow> driver option \<Rightarrow> ('b, unit) stmt" where
  "finalizar env driver =
     bindE entra_finally (\<lambda>_.
     case driver of
       None \<Rightarrow> ret ()
     | Some drv \<Rightarrow> bindE (quit env drv) (\<lambda>_. logging INFO ''Driver finalizado.'' []))"

text \<open>
  Lines 293-296, before the \<^verbatim>\<open>try\<close>: the selectors are loaded and the stream log is
  initialised.
\<close>

definition preambulo ::
  "'b env \<Rightarrow> (string \<Rightarrow> string option) \<Rightarrow> ('b, (string \<Rightarrow> string option) \<times> path) stmt" where
  "preambulo env cfg =
     bindE (getitem cfg ''selectors_file'') (\<lambda>selectors_file.
     bindE (carregar_selectors env selectors_file) (\<lambda>selectors.
     bindE (getitem cfg ''streaming_path'') (\<lambda>streaming_path.
     bindE (inicializar_streaming env streaming_path) (\<lambda>_.
     ret (selectors, streaming_path)))))"

text \<open>
  \<^verbatim>\<open>executar_extracao\<close>: an exception of the \<^verbatim>\<open>finally\<close> block replaces the
  outcome of the body; otherwise the outcome of the body stands.
\<close>

definition executar_extracao ::
  "'b env \<Rightarrow> string \<Rightarrow> string \<Rightarrow> path \<Rightarrow> path \<Rightarrow> (string \<Rightarrow> string option) \<Rightarrow> ('b, unit) stmt" where
  "executar_extracao env usuario senha caminho_entrada caminho_saida cfg w =
     (case preambulo env cfg w of
        (w1, Inl e) \<Rightarrow> (w1, Inl e)
      | (w1, Inr (selectors, streaming_path)) \<Rightarrow>
          (case corpo env usuario senha caminho_entrada caminho_saida cfg selectors
                  streaming_path w1 of
             ((w2, driver), r) \<Rightarrow>
               (case finalizar env driver w2 of
                  (w3, Inl e) \<Rightarrow> (w3, Inl e)
                | (w3, Inr _) \<Rightarrow> (w3, r))))"

subsection \<open>The command line (lines 398-421)\<close>

record args =
  arg_input :: path
  arg_output :: path
  arg_user :: string
  arg_password :: string
  arg_log :: path

definition configurar_logging :: "'b env \<Rightarrow> path \<Rightarrow> ('b, unit) stmt" where
  "configurar_logging env log_path =
     bindE (call (os_makedirs env (os_dirname env log_path))) (\<lambda>_.
     call (basic_config env log_path))"

text \<open>
  Lines 399-408 of \<^verbatim>\<open>main\<close>, before its \<^verbatim>\<open>try\<close>; \<open>environ\<close> is the process
  environment after \<^verbatim>\<open>load_dotenv\<close>, \<open>a\<close> the parsed command line.
\<close>

definition main_inicio ::
  "'b env \<Rightarrow> (string \<Rightarrow> string option) \<Rightarrow> args \<Rightarrow> ('b, string \<Rightarrow> string option) stmt" where
  "main_inicio env environ a =
     (let cfg = obter_configuracoes environ in
      bindE (configurar_logging env (arg_log a)) (\<lambda>_.
      bindE (logging INFO (''Iniciando processo de extra'' @ [CHR 0xE7, CHR 0xE3] @ ''o.'') []) (\<lambda>_.
      bindE (logging INFO ''Entrada: %s'' [S (arg_input a)]) (\<lambda>_.
      bindE (logging INFO (''Sa'' @ [CHR 0xED] @ ''da: %s'') [S (arg_output a)]) (\<lambda>_.
      bindE (getitem cfg ''streaming_path'') (\<lambda>sp.
      bindE (logging INFO ''Streaming: %s'' [S sp]) (\<lambda>_.
      ret cfg)))))))"

text \<open>
  \<^verbatim>\<open>main\<close> returns the exit status of the process: 0 when it returns, 1 after
  \<^verbatim>\<open>sys.exit(1)\<close>, and 1 when an exception leaves it (the interpreter's status for an
  uncaught exception).
\<close>

definition main :: "'b env \<Rightarrow> (string \<Rightarrow> string option) \<Rightarrow> args \<Rightarrow> 'b world \<Rightarrow> 'b world \<times> nat" where
  "main env environ a w =
     (case main_inicio env environ a w of
        (w1, Inl e) \<Rightarrow> (w1, 1)
      | (w1, Inr cfg) \<Rightarrow>
          (case bindE (executar_extracao env (arg_user a) (arg_password a) (arg_input a)
                         (arg_output a) cfg) (\<lambda>_.
                logging INFO (''Processo conclu'' @ [CHR 0xED] @ ''do com sucesso.'') []) w1 of
             (w2, Inr _) \<Rightarrow> (w2, 0)
           | (w2, Inl exc) \<Rightarrow>
               (fst (logging ERROR (''Falha geral na extra'' @ [CHR 0xE7, CHR 0xE3] @ ''o: %s'')
                       [X exc] w2), 1)))"

subsection \<open>Prefixes of a run\<close>

text \<open>
  Lines 293-302 of \<^verbatim>\<open>executar_extracao\<close> read in sequence, without the
  \<^verbatim>\<open>try\<close> around line 302: the selectors, the stream log initialised, the browser
  started. The session is started exactly when this returns.
\<close>

definition inicio_sessao ::
  "'b env \<Rightarrow> (string \<Rightarrow> string option)
     \<Rightarrow> ('b, (string \<Rightarrow> string option) \<times> path \<times> driver) stmt" where
  "inicio_sessao env cfg =
     bindE (preambulo env cfg) (\<lambda>(selectors, streaming_path).
     bindE (getitem cfg ''driver_path'') (\<lambda>driver_path.
     bindE (iniciar_driver env driver_path) (\<lambda>drv.
     ret (selectors, streaming_path, drv))))"

text \<open>
  Lines 293-309 read the same way: the run up to the \<^verbatim>\<open>for\<close> loop, with the
  batch it has loaded and the start time.
\<close>

definition preparacao ::
  "'b env \<Rightarrow> string \<Rightarrow> string \<Rightarrow> path \<Rightarrow> (string \<Rightarrow> string option)
     \<Rightarrow> ('b, (string \<Rightarrow> string option) \<times> path \<times> driver \<times> row list \<times> rat) stmt" where
  "preparacao env usuario senha caminho_entrada cfg =
     bindE (inicio_sessao env cfg) (\<lambda>(selectors, streaming_path, drv).
     bindE (getitem cfg ''portal_url'') (\<lambda>portal_url.
     bindE (login env drv selectors portal_url usuario senha) (\<lambda>_.
     bindE (navegar_para_modulo_consulta env drv selectors) (\<lambda>_.
     bindE (carregar_entrada env caminho_entrada) (\<lambda>registros.
     bindE (now env) (\<lambda>inicio.
     ret (selectors, streaming_path, drv, registros, inicio)))))))"

subsection \<open>Reading a batch and a log\<close>

text \<open>The identifier of a row, as line 312 computes it.\<close>

definition cpf_de :: "row \<Rightarrow> string" where
  "cpf_de row = strip (case row ''CPF'' of None \<Rightarrow> [] | Some v \<Rightarrow> v)"

text \<open>The identifiers of the rows that are not skipped, in input order.\<close>

definition validos :: "row list \<Rightarrow> string list" where
  "validos registros = filter (\<lambda>c. c \<noteq> []) (map cpf_de registros)"

text \<open>The positions, counted from \<open>idx\<close>, of the rows that are not skipped.\<close>

fun posicoes :: "nat \<Rightarrow> row list \<Rightarrow> nat list" where
  "posicoes idx [] = []"
| "posicoes idx (row # registros) =
     (if cpf_de row = [] then posicoes (Suc idx) registros
      else idx # posicoes (Suc idx) registros)"

text \<open>The index and the total of every progress line of a log, in order.\<close>

fun progressos :: "log_entry list \<Rightarrow> (nat \<times> nat) list" where
  "progressos [] = []"
| "progressos (Log l fmt as # es) =
     (if fmt = fmt_progresso
      then (case as of N i # N t # _ \<Rightarrow> (i, t) # progressos es | _ \<Rightarrow> progressos es)
      else progressos es)"

text \<open>The stream lines of retained results and their messages, concatenated.\<close>

fun linhas :: "resultado list \<Rightarrow> string list \<Rightarrow> string" where
  "linhas (d # ds) (m # ms) = linha (CPF d) (Status d) m @ linhas ds ms"
| "linhas _ _ = []"



subsection \<open>A small portal for concrete runs\<close>

text \<open>
  The hidden state is the text of the field typed into last. Files and spreadsheets can
  always be written; the browser starts unless the driver path is empty; a wait for
  presence times out on the pairs (locator, typed text) of \<open>lentos\<close>.
\<close>

definition sim :: "json \<Rightarrow> table \<Rightarrow> (string \<times> string) list \<Rightarrow> string env" where
  "sim sels tab lentos =
     \<lparr>os_dirname = (\<lambda>p. rev (drop 1 (dropWhile (\<lambda>c. c \<noteq> CHR ''/'') (rev p)))),
      os_exists = (\<lambda>p b. True),
      os_makedirs = (\<lambda>p b. (b, Inr ())),
      open_w = (\<lambda>p b. (b, Inr ())),
      open_a = (\<lambda>p b. (b, Inr ())),
      fp_write = (\<lambda>p s b. (b, Inr ())),
      json_load = (\<lambda>p b. (b, Inr sels)),
      read_excel = (\<lambda>p b. (b, Inr tab)),
      to_excel = (\<lambda>p rs b. (b, Inr ())),
      basic_config = (\<lambda>p b. (b, Inr ())),
      edge = (\<lambda>p b. if p = [] then (b, Inl ''WebDriverException'') else (b, Inr 0)),
      driver_get = (\<lambda>d u b. (b, Inr ())),
      until_presence = (\<lambda>d t l b. if (l, b) \<in> set lentos then (b, Inl ''TimeoutException'')
                                    else (b, Inr 1)),
      until_clickable = (\<lambda>d t l b. (b, Inr 1)),
      find_element = (\<lambda>d l b. (b, Inr 1)),
      elem_clear = (\<lambda>e b. ([], Inr ())),
      elem_send_keys = (\<lambda>e s b. (b @ s, Inr ())),
      elem_click = (\<lambda>e b. (b, Inr ())),
      execute_script = (\<lambda>d s e b. (b, Inr ())),
      driver_quit = (\<lambda>d b. (b, Inr ())),
      time_time = (\<lambda>b. (b, 0))\<rparr>"

definition seletores :: "string \<Rightarrow> string option" where
  "seletores = [''campo_usuario'' \<mapsto> ''usuario'', ''campo_senha'' \<mapsto> ''senha'',
                ''botao_entrar'' \<mapsto> ''entrar'', ''menu_cadastro'' \<mapsto> ''cadastro'',
                ''menu_proposta'' \<mapsto> ''proposta'', ''campo_cpf'' \<mapsto> ''cpf'',
                ''botao_consultar'' \<mapsto> ''consultar'', ''grid_resultados'' \<mapsto> ''grid'']"

definition planilha :: "string list \<Rightarrow> table" where
  "planilha cpfs = \<lparr>columns = [''CPF''], records = map (\<lambda>c. [''CPF'' \<mapsto> c]) cpfs\<rparr>"

definition mundo :: "string world" where
  "mundo = \<lparr>hidden = [], files = Map.empty, sheets = Map.empty, logged = [], quit_calls = 0,
             finally_runs = 0\<rparr>"

definition cfg_padrao :: "string \<Rightarrow> string option" where
  "cfg_padrao = obter_configuracoes Map.empty"

definition args_exemplo :: args where
  "args_exemplo = \<lparr>arg_input = ''in.xlsx'', arg_output = ''out/o.xlsx'', arg_user = ''u'',
                    arg_password = ''s'', arg_log = ''logs/extracao_portal.log''\<rparr>"

definition seletores_sem :: "string \<Rightarrow> (string \<Rightarrow> string option)" where
  "seletores_sem k = seletores(k := None)"

subsection \<open>Predicates of the proofs\<close>

text \<open>
  \<open>keeps g m\<close>: the statement \<open>m\<close> leaves the reading \<open>g\<close> of the world as it was.
  \<open>quiet g\<close>: \<open>g\<close> depends neither on the hidden state nor on log lines other than
  progress reports. \<open>apart g\<close>: \<open>g\<close> depends neither on the hidden state, nor on the log,
  nor on the text files. \<open>nzd m\<close>: \<open>m\<close> never ends with \<^verbatim>\<open>ZeroDivisionError\<close>.
  \<open>forma env drv sel d m\<close>: \<open>d\<close> and \<open>m\<close> are a result and a stream message that the
  \<^verbatim>\<open>try\<close>/\<^verbatim>\<open>except\<close> of lines 317-330 can give for the identifier of \<open>d\<close>.
\<close>

definition keeps :: "('b world \<Rightarrow> 'c) \<Rightarrow> ('b, 'a) stmt \<Rightarrow> bool" where
  "keeps g m \<longleftrightarrow> (\<forall>w. g (fst (m w)) = g w)"

definition quiet :: "('b world \<Rightarrow> 'c) \<Rightarrow> bool" where
  "quiet g \<longleftrightarrow>
     (\<forall>w b. g (w\<lparr>hidden := b\<rparr>) = g w) \<and>
     (\<forall>w l fmt as. fmt \<noteq> fmt_progresso \<longrightarrow> g (w\<lparr>logged := logged w @ [Log l fmt as]\<rparr>) = g w)"

definition apart :: "('b world \<Rightarrow> 'c) \<Rightarrow> bool" where
  "apart g \<longleftrightarrow>
     (\<forall>w b. g (w\<lparr>hidden := b\<rparr>) = g w) \<and> (\<forall>w l. g (w\<lparr>logged := l\<rparr>) = g w) \<and>
     (\<forall>w f. g (w\<lparr>files := f\<rparr>) = g w)"

definition nzd :: "('b, 'a) stmt \<Rightarrow> bool" where
  "nzd m \<longleftrightarrow> (\<forall>w. snd (m w) \<noteq> Inl ZeroDivisionError)"


section \<open>Lemmas: sequencing\<close>

lemma bindE_ret [simp]: "bindE (ret x) f = f x"
  by (rule ext) (simp add: bindE_def ret_def)

lemma bindE_raise [simp]: "bindE (raise e) f = raise e"
  by (rule ext) (simp add: bindE_def raise_def)

lemma bindE_Inr:
  "bindE m f w = (w', Inr y) \<longleftrightarrow> (\<exists>w1 x. m w = (w1, Inr x) \<and> f x w1 = (w', Inr y))"
  by (auto simp: bindE_def split: prod.splits sum.splits)

lemma bindE_Inl:
  "bindE m f w = (w', Inl e) \<longleftrightarrow>
     m w = (w', Inl e) \<or> (\<exists>w1 x. m w = (w1, Inr x) \<and> f x w1 = (w', Inl e))"
  by (auto simp: bindE_def split: prod.splits sum.splits)

lemma bindE_step: "m w = (w1, Inr x) \<Longrightarrow> bindE m f w = f x w1"
  by (simp add: bindE_def)

lemma bindE_stop: "m w = (w1, Inl e) \<Longrightarrow> bindE m f w = (w1, Inl e)"
  by (simp add: bindE_def)

section \<open>Lemmas: what a statement leaves alone\<close>

lemma keepsD: "keeps g m \<Longrightarrow> m w = (w', r) \<Longrightarrow> g w' = g w"
  by (metis fst_conv keeps_def)

lemma keeps_ret [intro!, simp]: "keeps g (ret x)"
  by (simp add: keeps_def ret_def)

lemma keeps_raise [intro!, simp]: "keeps g (raise e)"
  by (simp add: keeps_def raise_def)

lemma keeps_getitem [intro!, simp]: "keeps g (getitem d k)"
  by (simp add: getitem_def split: option.splits)

lemma keeps_bindE [intro!]: "keeps g m \<Longrightarrow> (\<And>x. keeps g (f x)) \<Longrightarrow> keeps g (bindE m f)"
  by (auto simp: keeps_def bindE_def split: prod.splits sum.splits) (metis fst_conv)+

lemma keeps_if [intro!]: "keeps g m \<Longrightarrow> keeps g n \<Longrightarrow> keeps g (if c then m else n)"
  by simp

lemma keeps_call [intro!]: "quiet g \<Longrightarrow> keeps g (call f)"
  by (auto simp: keeps_def quiet_def call_def split: prod.splits sum.splits)

lemma keeps_path_exists [intro!, simp]: "keeps g (path_exists env p)"
  by (simp add: keeps_def path_exists_def)

lemma keeps_now [intro!]: "quiet g \<Longrightarrow> keeps g (now env)"
  by (auto simp: keeps_def quiet_def now_def split: prod.splits)

lemma keeps_logging [intro]: "quiet g \<Longrightarrow> fmt \<noteq> fmt_progresso \<Longrightarrow> keeps g (logging l fmt as)"
  by (auto simp: keeps_def quiet_def logging_def)

lemma keeps_porcentagem [intro!, simp]: "keeps g (porcentagem idx tot)"
  by (simp add: porcentagem_def)

lemma progressos_append: "progressos (xs @ ys) = progressos xs @ progressos ys"
  by (induction xs rule: progressos.induct) (auto split: list.splits log_arg.splits)

lemma quiet_files [simp]: "quiet files"
  and quiet_sheets [simp]: "quiet sheets"
  and quiet_quit_calls [simp]: "quiet quit_calls"
  and quiet_content [simp]: "quiet (\<lambda>w. content w p)"
  and quiet_progressos [simp]: "quiet (\<lambda>w. progressos (logged w))"
  by (simp_all add: quiet_def content_def progressos_append)

lemma keeps_login: "quiet g \<Longrightarrow> keeps g (login env drv sel url u s)"
  unfolding login_def by (intro keeps_bindE keeps_call keeps_getitem keeps_logging) (simp_all add: fmt_progresso_def)

lemma keeps_navegar: "quiet g \<Longrightarrow> keeps g (navegar_para_modulo_consulta env drv sel)"
  unfolding navegar_para_modulo_consulta_def
  by (intro keeps_bindE keeps_call keeps_getitem keeps_logging) (simp_all add: fmt_progresso_def)

lemma keeps_extrair: "quiet g \<Longrightarrow> keeps g (extrair_dados_para_cpf env drv sel cpf t)"
  unfolding extrair_dados_para_cpf_def
  by (intro keeps_bindE keeps_call keeps_getitem keeps_logging keeps_if keeps_ret) (simp_all add: fmt_progresso_def)

lemma keeps_iniciar_driver: "quiet g \<Longrightarrow> keeps g (iniciar_driver env p)"
  unfolding iniciar_driver_def by (rule keeps_call)

lemma keeps_carregar_selectors: "quiet g \<Longrightarrow> keeps g (carregar_selectors env p)"
  unfolding carregar_selectors_def
  by (intro keeps_bindE keeps_call keeps_if keeps_raise keeps_path_exists)
     (simp_all split: json.splits)

lemma keeps_carregar_entrada: "quiet g \<Longrightarrow> keeps g (carregar_entrada env p)"
  unfolding carregar_entrada_def
  by (intro keeps_bindE keeps_call keeps_if keeps_raise keeps_ret keeps_logging keeps_path_exists)
     (simp_all add: fmt_progresso_def)

lemma keeps_tentar_extrair: "quiet g \<Longrightarrow> keeps g (tentar_extrair env drv sel cpf)"
proof -
  assume q: "quiet g"
  show ?thesis
    unfolding keeps_def
  proof
    fix w
    obtain w1 r where e: "extrair_dados_para_cpf env drv sel cpf 20 w = (w1, r)"
      by (cases "extrair_dados_para_cpf env drv sel cpf 20 w")
    have g1: "g w1 = g w"
      using keepsD [OF keeps_extrair [OF q] e] .
    show "g (fst (tentar_extrair env drv sel cpf w)) = g w"
    proof (cases r)
      case (Inr d)
      then show ?thesis using e g1 by (simp add: tentar_extrair_def)
    next
      case (Inl exc)
      have "keeps g (bindE (logging ERROR ''Falha ao extrair dados para CPF %s: %s'' [S cpf, X exc])
            (\<lambda>_. ret (\<lparr>CPF = cpf, Status = ''erro'', ParcelasPagas = None, Saldo = None\<rparr>,
                       ''erro'', ''erro: '' @ type_name exc)))"
        using q by (intro keeps_bindE keeps_logging keeps_ret) (simp_all add: fmt_progresso_def)
      then show ?thesis using e g1 Inl by (simp add: tentar_extrair_def keeps_def)
    qed
  qed
qed

text \<open>What the try/except returns.\<close>

lemma tentar_extrair_Inl:
  "extrair_dados_para_cpf env drv sel cpf 20 w = (w1, Inl exc) \<Longrightarrow>
   tentar_extrair env drv sel cpf w =
     (w1\<lparr>logged := logged w1 @ [Log ERROR ''Falha ao extrair dados para CPF %s: %s'' [S cpf, X exc]]\<rparr>,
      Inr (\<lparr>CPF = cpf, Status = ''erro'', ParcelasPagas = None, Saldo = None\<rparr>,
           ''erro'', ''erro: '' @ type_name exc))"
  by (simp add: tentar_extrair_def bindE_def logging_def ret_def)

lemma tentar_extrair_Inr:
  "extrair_dados_para_cpf env drv sel cpf 20 w = (w1, Inr d) \<Longrightarrow>
   tentar_extrair env drv sel cpf w = (w1, Inr (d, Status d, concluida))"
  by (simp add: tentar_extrair_def)

lemma extrair_Inr:
  "extrair_dados_para_cpf env drv sel cpf t w = (w1, Inr d) \<Longrightarrow>
   d = \<lparr>CPF = cpf, Status = ''ok'', ParcelasPagas = Some 12, Saldo = Some 1235\<rparr>"
  by (auto simp: extrair_dados_para_cpf_def bindE_Inr ret_def)

lemma tentar_extrair_total:
  "\<exists>w1 d m. tentar_extrair env drv sel cpf w = (w1, Inr (d, Status d, m)) \<and> CPF d = cpf"
proof -
  obtain w1 r where e: "extrair_dados_para_cpf env drv sel cpf 20 w = (w1, r)"
    by (cases "extrair_dados_para_cpf env drv sel cpf 20 w")
  show ?thesis
  proof (cases r)
    case (Inl exc)
    then show ?thesis using tentar_extrair_Inl [of env drv sel cpf w w1 exc] e by simp
  next
    case (Inr d)
    then show ?thesis using tentar_extrair_Inr [of env drv sel cpf w w1 d] extrair_Inr [of env drv sel cpf 20 w w1 d] e by simp
  qed
qed

section \<open>Lemmas: the stream log\<close>

lemma open_write_Inr:
  "open_write env p w = (w', Inr u) \<Longrightarrow>
     files w' = (files w)(p \<mapsto> []) \<and> sheets w' = sheets w \<and> quit_calls w' = quit_calls w \<and> logged w' = logged w"
  by (auto simp: open_write_def bindE_Inr call_def split: prod.splits sum.splits)

lemma open_append_Inr:
  "open_append env p w = (w', Inr u) \<Longrightarrow>
     files w' = (files w)(p \<mapsto> content w p) \<and> sheets w' = sheets w \<and> quit_calls w' = quit_calls w \<and> logged w' = logged w"
  by (auto simp: open_append_def bindE_Inr call_def content_def split: prod.splits sum.splits)

lemma write_str_Inr:
  "write_str env p s w = (w', Inr u) \<Longrightarrow>
     files w' = (files w)(p \<mapsto> content w p @ s) \<and> sheets w' = sheets w \<and> quit_calls w' = quit_calls w \<and> logged w' = logged w"
  by (auto simp: write_str_def bindE_Inr call_def content_def split: prod.splits sum.splits)

lemma append_streaming_Inr:
  assumes "append_streaming env p c st m w = (w', Inr u)"
  shows "files w' = (files w)(p \<mapsto> content w p @ linha c st m)"
    and "sheets w' = sheets w" and "quit_calls w' = quit_calls w" and "logged w' = logged w"
proof -
  from assms obtain w1 u1 where a: "open_append env p w = (w1, Inr u1)"
    and b: "write_str env p (linha c st m) w1 = (w', Inr u)"
    by (auto simp: append_streaming_def bindE_Inr)
  note A = open_append_Inr [OF a] and B = write_str_Inr [OF b]
  have "content w1 p = content w p" using A by (simp add: content_def)
  then show "files w' = (files w)(p \<mapsto> content w p @ linha c st m)" using A B by simp
  show "sheets w' = sheets w" "quit_calls w' = quit_calls w" "logged w' = logged w"
    using A B by simp_all
qed

lemma inicializar_streaming_Inr:
  assumes "inicializar_streaming env p w = (w', Inr u)"
  shows "files w' = (files w)(p \<mapsto> cabecalho)"
    and "sheets w' = sheets w" and "quit_calls w' = quit_calls w"
    and "progressos (logged w') = progressos (logged w)"
proof -
  from assms obtain w1 u1 w2 u2 w3 u3 where m: "call (os_makedirs env (os_dirname env p)) w = (w1, Inr u1)"
    and a: "open_write env p w1 = (w2, Inr u2)"
    and b: "write_str env p cabecalho w2 = (w3, Inr u3)"
    and l: "logging INFO ''Arquivo de streaming inicializado em: %s'' [S p] w3 = (w', Inr u)"
    by (auto simp: inicializar_streaming_def bindE_Inr)
  note A = open_write_Inr [OF a] and B = write_str_Inr [OF b]
  have M: "files w1 = files w" "sheets w1 = sheets w" "quit_calls w1 = quit_calls w" "logged w1 = logged w"
    using m by (auto simp: call_def split: prod.splits sum.splits)
  have L: "files w' = files w3" "sheets w' = sheets w3" "quit_calls w' = quit_calls w3"
    "progressos (logged w') = progressos (logged w3)"
    using l by (auto simp: logging_def progressos_append fmt_progresso_def)
  have "content w2 p = []" using A by (simp add: content_def)
  then show "files w' = (files w)(p \<mapsto> cabecalho)" using A B M L by simp
  show "sheets w' = sheets w" "quit_calls w' = quit_calls w" "progressos (logged w') = progressos (logged w)"
    using A B M L by simp_all
qed

lemma apart_quiet: "apart g \<Longrightarrow> quiet g"
  by (simp add: apart_def quiet_def)

lemma apart_sheets [simp]: "apart sheets"
  and apart_quit_calls [simp]: "apart quit_calls"
  by (simp_all add: apart_def)

lemma keeps_logging_apart: "apart g \<Longrightarrow> keeps g (logging l fmt as)"
  by (simp add: apart_def keeps_def logging_def)

lemma keeps_open_append: "apart g \<Longrightarrow> keeps g (open_append env p)"
  unfolding open_append_def
  by (intro keeps_bindE keeps_call apart_quiet) (simp_all add: keeps_def apart_def)

lemma keeps_write_str: "apart g \<Longrightarrow> keeps g (write_str env p s)"
  unfolding write_str_def
  by (intro keeps_bindE keeps_call apart_quiet) (simp_all add: keeps_def apart_def)

lemma keeps_append_streaming: "apart g \<Longrightarrow> keeps g (append_streaming env p c st m)"
  unfolding append_streaming_def
  by (intro keeps_bindE keeps_open_append keeps_write_str)

lemma keeps_iteracao:
  "apart g \<Longrightarrow> keeps g (iteracao env drv sel sp tot inicio idx row res)"
  unfolding iteracao_def Let_def
  by (intro keeps_if keeps_bindE keeps_logging_apart keeps_ret keeps_tentar_extrair apart_quiet)
     (auto intro!: keeps_bindE keeps_append_streaming keeps_now keeps_logging_apart apart_quiet)

lemma keeps_laco:
  "apart g \<Longrightarrow> keeps g (laco env drv sel sp tot inicio idx registros res)"
proof (induction registros arbitrary: idx res)
  case Nil
  then show ?case by (simp add: keeps_def)
next
  case (Cons row registros)
  show ?case
    unfolding keeps_def
  proof
    fix w
    obtain w1 r where i: "iteracao env drv sel sp tot inicio idx row res w = (w1, r)"
      by (cases "iteracao env drv sel sp tot inicio idx row res w")
    have g1: "g w1 = g w"
      using keepsD [OF keeps_iteracao [OF Cons.prems] i] .
    show "g (fst (laco env drv sel sp tot inicio idx (row # registros) res w)) = g w"
    proof (cases r)
      case (Inl e)
      then show ?thesis using i g1 by simp
    next
      case (Inr res1)
      then show ?thesis
        using i g1 Cons.IH [OF Cons.prems, of "Suc idx" res1] by (simp add: keeps_def)
    qed
  qed
qed

lemma keeps_consolidar:
  "quiet g \<Longrightarrow> (\<And>w f. g (w\<lparr>sheets := f\<rparr>) = g w) \<Longrightarrow> keeps g (consolidar env p rs)"
  unfolding consolidar_def df_to_excel_def
  by (intro keeps_if keeps_bindE keeps_call keeps_logging)
     (simp_all add: keeps_def fmt_progresso_def)

lemma keeps_finalizar:
  assumes q: "quiet g" and n: "\<And>w n. g (w\<lparr>quit_calls := n\<rparr>) = g w"
    and f: "\<And>w n. g (w\<lparr>finally_runs := n\<rparr>) = g w"
  shows "keeps g (finalizar env d)"
proof -
  have e: "keeps g entra_finally"
    using f by (simp add: keeps_def entra_finally_def)
  show ?thesis
  proof (cases d)
    case None
    then show ?thesis using e by (auto simp: finalizar_def intro!: keeps_bindE)
  next
    case (Some drv)
    have "keeps g (quit env drv)"
      using keeps_call [OF q, of "driver_quit env drv"] n by (simp add: keeps_def quit_def)
    then show ?thesis
      using Some q e
      by (auto simp: finalizar_def fmt_progresso_def intro!: keeps_bindE keeps_logging)
  qed
qed

section \<open>Lemmas: one iteration\<close>

lemma iteracao_skip:
  "cpf_de row = [] \<Longrightarrow>
   iteracao env drv sel sp tot inicio idx row res w =
     (w\<lparr>logged := logged w @ [Log WARNING (''Registro sem CPF v'' @ [CHR 0xE1]
                                     @ ''lido na linha %d. Ignorando.'') [N idx]]\<rparr>, Inr res)"
  by (simp add: iteracao_def cpf_de_def bindE_def logging_def ret_def)

lemma iteracao_Inr:
  assumes v: "cpf_de row \<noteq> []"
    and i: "iteracao env drv sel sp tot inicio idx row res w = (w', Inr res')"
  shows "\<exists>w1 d m. tentar_extrair env drv sel (cpf_de row) w = (w1, Inr (d, Status d, m))
           \<and> CPF d = cpf_de row \<and> res' = res @ [d]
           \<and> files w' = (files w)(sp \<mapsto> content w sp @ linha (cpf_de row) (Status d) m)
           \<and> progressos (logged w') = progressos (logged w) @ [(idx, tot)]"
proof -
  obtain w1 d m where t: "tentar_extrair env drv sel (cpf_de row) w = (w1, Inr (d, Status d, m))"
    and c: "CPF d = cpf_de row"
    using tentar_extrair_total [of env drv sel "cpf_de row" w] by blast
  from i v t obtain w2 u w3 tm pct
    where a: "append_streaming env sp (cpf_de row) (Status d) m w1 = (w2, Inr u)"
      and n: "now env w2 = (w3, Inr tm)"
      and p: "porcentagem idx tot w3 = (w3, Inr pct)"
      and l: "logging INFO fmt_progresso [N idx, N tot, Q pct, Q (tm - inicio)] w3 = (w', Inr ())"
      and r: "res' = res @ [d]"
    by (auto simp: iteracao_def Let_def cpf_de_def [symmetric] bindE_Inr ret_def porcentagem_def raise_def
             split: if_splits)
  have f1: "files w1 = files w" "progressos (logged w1) = progressos (logged w)"
    using keepsD [OF keeps_tentar_extrair t, of files] keepsD [OF keeps_tentar_extrair t, of "\<lambda>w. progressos (logged w)"]
    by simp_all
  have f3: "files w3 = files w2" "logged w3 = logged w2"
    using n by (auto simp: now_def split: prod.splits)
  have f4: "files w' = files w3" "logged w' = logged w3 @ [Log INFO fmt_progresso [N idx, N tot, Q pct, Q (tm - inicio)]]"
    using l by (auto simp: logging_def)
  have c1: "content w1 sp = content w sp" using f1 by (simp add: content_def)
  show ?thesis
    using t c r append_streaming_Inr [OF a] f1 f3 f4 c1
    by (simp add: progressos_append)
qed

lemma now_not_Inl [simp]: "now env w \<noteq> (w', Inl e)"
  by (simp add: now_def split: prod.splits)

lemma logging_not_Inl [simp]: "logging l fmt as w \<noteq> (w', Inl e)"
  by (simp add: logging_def)

lemma iteracao_Inl:
  assumes v: "cpf_de row \<noteq> []"
    and i: "iteracao env drv sel sp tot inicio idx row res w = (w', Inl e)"
  shows "\<exists>w1 d m. tentar_extrair env drv sel (cpf_de row) w = (w1, Inr (d, Status d, m))
           \<and> (append_streaming env sp (cpf_de row) (Status d) m w1 = (w', Inl e)
               \<or> tot = 0 \<and> e = ZeroDivisionError)"
proof -
  obtain w1 d m where t: "tentar_extrair env drv sel (cpf_de row) w = (w1, Inr (d, Status d, m))"
    using tentar_extrair_total [of env drv sel "cpf_de row" w] by blast
  from i v t have "append_streaming env sp (cpf_de row) (Status d) m w1 = (w', Inl e)
               \<or> tot = 0 \<and> e = ZeroDivisionError"
    by (auto simp: iteracao_def Let_def cpf_de_def [symmetric] bindE_Inl bindE_Inr ret_def
          porcentagem_def raise_def split: if_splits)
  with t show ?thesis by blast
qed

lemma linhas_snoc:
  "length ds = length ms \<Longrightarrow> linhas (ds @ [d]) (ms @ [m]) = linhas ds ms @ linha (CPF d) (Status d) m"
  by (induction ds ms rule: linhas.induct) auto

section \<open>Lemmas: the loop\<close>

lemma laco_Inr:
  "laco env drv sel sp tot inicio idx registros res w = (w', Inr res') \<Longrightarrow>
   \<exists>ds ms. res' = res @ ds \<and> map CPF ds = validos registros \<and> length ms = length ds
         \<and> (\<forall>p. p \<noteq> sp \<longrightarrow> files w' p = files w p)
         \<and> (ds = [] \<longrightarrow> files w' = files w)
         \<and> content w' sp = content w sp @ linhas ds ms
         \<and> progressos (logged w') = progressos (logged w) @ map (\<lambda>i. (i, tot)) (posicoes idx registros)"
proof (induction registros arbitrary: idx res w)
  case Nil
  then show ?case by (simp add: validos_def)
next
  case (Cons row registros)
  from Cons.prems obtain w1 res1
    where i: "iteracao env drv sel sp tot inicio idx row res w = (w1, Inr res1)"
      and l: "laco env drv sel sp tot inicio (Suc idx) registros res1 w1 = (w', Inr res')"
    by (auto split: prod.splits sum.splits)
  from Cons.IH [OF l] obtain ds ms where ih: "res' = res1 @ ds" "map CPF ds = validos registros"
    "length ms = length ds" "\<forall>p. p \<noteq> sp \<longrightarrow> files w' p = files w1 p" "ds = [] \<longrightarrow> files w' = files w1"
    "content w' sp = content w1 sp @ linhas ds ms"
    "progressos (logged w') = progressos (logged w1) @ map (\<lambda>i. (i, tot)) (posicoes (Suc idx) registros)"
    by blast
  show ?case
  proof (cases "cpf_de row = []")
    case True
    with i have "res1 = res" "files w1 = files w" "progressos (logged w1) = progressos (logged w)"
      by (auto simp: iteracao_skip progressos_append fmt_progresso_def)
    with ih True show ?thesis
      by (intro exI [of _ ds] exI [of _ ms]) (simp add: validos_def content_def)
  next
    case False
    from iteracao_Inr [OF False i] obtain wt d m
      where d: "CPF d = cpf_de row" "res1 = res @ [d]"
        "files w1 = (files w)(sp \<mapsto> content w sp @ linha (cpf_de row) (Status d) m)"
        "progressos (logged w1) = progressos (logged w) @ [(idx, tot)]"
      by blast
    have c1: "content w1 sp = content w sp @ linha (CPF d) (Status d) m"
      using d by (simp add: content_def)
    have f: "\<forall>p. p \<noteq> sp \<longrightarrow> files w' p = files w p"
      using ih(4) d(3) by simp
    show ?thesis
      using ih d False c1 f
      by (intro exI [of _ "d # ds"] exI [of _ "m # ms"]) (simp add: validos_def)
  qed
qed

section \<open>Lemmas: a run that reaches the loop\<close>

lemma preambulo_Inr:
  assumes "preambulo env cfg w = (w1, Inr (sel, sp))"
  shows "\<exists>sf wa. cfg ''selectors_file'' = Some sf \<and> carregar_selectors env sf w = (wa, Inr sel) \<and>
           cfg ''streaming_path'' = Some sp \<and> inicializar_streaming env sp wa = (w1, Inr ())"
  using assms
  by (auto simp: preambulo_def bindE_Inr getitem_def ret_def raise_def split: option.splits)

lemma inicio_sessao_Inr:
  assumes "inicio_sessao env cfg w = (w1, Inr (sel, sp, drv))"
  shows "\<exists>wb dp. preambulo env cfg w = (wb, Inr (sel, sp)) \<and>
           cfg ''driver_path'' = Some dp \<and> iniciar_driver env dp wb = (w1, Inr drv)"
  using assms
  by (auto simp: inicio_sessao_def bindE_Inr getitem_def ret_def raise_def split: option.splits)

lemma preparacao_Inr:
  assumes "preparacao env usuario senha ce cfg w = (w1, Inr (sel, sp, drv, registros, inicio))"
  shows "\<exists>w0 url wa wb wc.
           inicio_sessao env cfg w = (w0, Inr (sel, sp, drv)) \<and>
           cfg ''portal_url'' = Some url \<and> login env drv sel url usuario senha w0 = (wa, Inr ()) \<and>
           navegar_para_modulo_consulta env drv sel wa = (wb, Inr ()) \<and>
           carregar_entrada env ce wb = (wc, Inr registros) \<and>
           now env wc = (w1, Inr inicio)"
  using assms
  by (auto simp: preparacao_def bindE_Inr getitem_def ret_def raise_def split: option.splits)

lemma executar_apos_inicio:
  assumes "inicio_sessao env cfg w = (w0, Inr (sel, sp, drv))"
  shows "executar_extracao env usuario senha ce cs cfg w =
     (case bindE (getitem cfg ''portal_url'') (\<lambda>portal_url.
                bindE (login env drv sel portal_url usuario senha) (\<lambda>_.
                bindE (navegar_para_modulo_consulta env drv sel) (\<lambda>_.
                bindE (carregar_entrada env ce) (\<lambda>registros.
                bindE (now env) (\<lambda>inicio.
                bindE (laco env drv sel sp (length registros) inicio 1
                         registros []) (\<lambda>resultados.
                consolidar env cs resultados)))))) w0 of
        (w2, r) \<Rightarrow>
          (case finalizar env (Some drv) w2 of
             (w3, Inl e) \<Rightarrow> (w3, Inl e)
           | (w3, Inr _) \<Rightarrow> (w3, r)))"
proof -
  from inicio_sessao_Inr [OF assms] obtain wb dp where
    c: "preambulo env cfg w = (wb, Inr (sel, sp))"
       "cfg ''driver_path'' = Some dp" "iniciar_driver env dp wb = (w0, Inr drv)"
    by blast
  have d: "bindE (getitem cfg ''driver_path'') (iniciar_driver env) wb = (w0, Inr drv)"
    using c by (simp add: bindE_def getitem_def ret_def)
  show ?thesis
    by (simp add: executar_extracao_def corpo_def c(1) d split: prod.splits)
qed

lemma executar_apos_preparacao:
  assumes "preparacao env usuario senha ce cfg w = (w1, Inr (sel, sp, drv, registros, inicio))"
  shows "executar_extracao env usuario senha ce cs cfg w =
     (case bindE (laco env drv sel sp (length registros) inicio 1 registros [])
             (consolidar env cs) w1 of
        (w2, r) \<Rightarrow>
          (case finalizar env (Some drv) w2 of
             (w3, Inl e) \<Rightarrow> (w3, Inl e)
           | (w3, Inr _) \<Rightarrow> (w3, r)))"
proof -
  from preparacao_Inr [OF assms] obtain w0 url wa wb wc where
    c: "inicio_sessao env cfg w = (w0, Inr (sel, sp, drv))"
       "cfg ''portal_url'' = Some url" "login env drv sel url usuario senha w0 = (wa, Inr ())"
       "navegar_para_modulo_consulta env drv sel wa = (wb, Inr ())"
       "carregar_entrada env ce wb = (wc, Inr registros)"
       "now env wc = (w1, Inr inicio)"
    by blast
  have "bindE (getitem cfg ''portal_url'') (\<lambda>portal_url.
                bindE (login env drv sel portal_url usuario senha) (\<lambda>_.
                bindE (navegar_para_modulo_consulta env drv sel) (\<lambda>_.
                bindE (carregar_entrada env ce) (\<lambda>registros.
                bindE (now env) (\<lambda>inicio.
                bindE (laco env drv sel sp (length registros) inicio 1
                         registros []) (\<lambda>resultados.
                consolidar env cs resultados)))))) w0
        = bindE (laco env drv sel sp (length registros) inicio 1 registros []) (consolidar env cs) w1"
    using c by (simp add: bindE_def getitem_def ret_def)
  then show ?thesis
    by (simp add: executar_apos_inicio [OF c(1)])
qed

lemma preparacao_frame:
  assumes "preparacao env usuario senha ce cfg w = (w1, Inr (sel, sp, drv, registros, inicio))"
  shows "files w1 = (files w)(sp \<mapsto> cabecalho)"
    and "sheets w1 = sheets w" and "quit_calls w1 = quit_calls w"
    and "progressos (logged w1) = progressos (logged w)"
proof -
  from preparacao_Inr [OF assms] obtain w0 url wa wb wc where
    c: "inicio_sessao env cfg w = (w0, Inr (sel, sp, drv))"
       "login env drv sel url usuario senha w0 = (wa, Inr ())"
       "navegar_para_modulo_consulta env drv sel wa = (wb, Inr ())"
       "carregar_entrada env ce wb = (wc, Inr registros)"
       "now env wc = (w1, Inr inicio)"
    by blast
  from inicio_sessao_Inr [OF c(1)] obtain we dp where
    j: "preambulo env cfg w = (we, Inr (sel, sp))" "iniciar_driver env dp we = (w0, Inr drv)"
    by blast
  from preambulo_Inr [OF j(1)] obtain sf wd where
    i: "carregar_selectors env sf w = (wd, Inr sel)"
       "inicializar_streaming env sp wd = (we, Inr ())"
       "iniciar_driver env dp we = (w0, Inr drv)"
    using j(2) by blast
  have k: "g w1 = g we" "g wd = g w" if "quiet g" for g :: "'a world \<Rightarrow> 'c"
    using keepsD [OF keeps_carregar_selectors [OF that] i(1)]
      keepsD [OF keeps_iniciar_driver [OF that] i(3)]
      keepsD [OF keeps_login [OF that] c(2)]
      keepsD [OF keeps_navegar [OF that] c(3)]
      keepsD [OF keeps_carregar_entrada [OF that] c(4)]
      keepsD [OF keeps_now [OF that] c(5)]
    by simp_all
  note I = inicializar_streaming_Inr [OF i(2)]
  show "files w1 = (files w)(sp \<mapsto> cabecalho)" using k [of files] I by simp
  show "sheets w1 = sheets w" using k [of sheets] I by simp
  show "quit_calls w1 = quit_calls w" using k [of quit_calls] I by simp
  show "progressos (logged w1) = progressos (logged w)"
    using k [of "\<lambda>w. progressos (logged w)"] I by simp
qed

section \<open>Lemmas: concrete runs\<close>

lemma returned: "snd x = r \<Longrightarrow> x = (fst x, r)"
  by (cases x) simp

lemma append_streaming_ok:
  assumes "\<forall>p b. snd (open_a env p b) = Inr ()" and "\<forall>p s b. snd (fp_write env p s b) = Inr ()"
  shows "\<exists>w'. append_streaming env sp c st m w = (w', Inr ())"
proof -
  obtain b1 where a: "open_a env sp (hidden w) = (b1, Inr ())"
    using assms(1) by (metis prod.collapse)
  obtain b2 where b: "fp_write env sp (linha c st m) b1 = (b2, Inr ())"
    using assms(2) by (metis prod.collapse)
  show ?thesis
    using a b by (simp add: append_streaming_def open_append_def write_str_def bindE_def call_def)
qed

lemma iteracao_ok:
  assumes "\<forall>p b. snd (open_a env p b) = Inr ()" and "\<forall>p s b. snd (fp_write env p s b) = Inr ()"
    and "tot \<noteq> 0"
  shows "\<exists>w' ds. iteracao env drv sel sp tot inicio idx row res w = (w', Inr (res @ ds))
           \<and> length ds = length (validos [row])"
proof (cases "cpf_de row = []")
  case True
  then show ?thesis by (simp add: iteracao_skip validos_def)
next
  case False
  obtain w1 d m where t: "tentar_extrair env drv sel (cpf_de row) w = (w1, Inr (d, Status d, m))"
    using tentar_extrair_total [of env drv sel "cpf_de row" w] by blast
  obtain w2 where a: "append_streaming env sp (cpf_de row) (Status d) m w1 = (w2, Inr ())"
    using append_streaming_ok [OF assms(1,2)] by blast
  have "\<exists>w'. iteracao env drv sel sp tot inicio idx row res w = (w', Inr (res @ [d]))"
    using False t a assms(3)
    by (simp add: iteracao_def Let_def cpf_de_def [symmetric] bindE_def porcentagem_def ret_def
        now_def logging_def split: prod.splits)
  then show ?thesis using False by (auto simp: validos_def)
qed

lemma laco_ok:
  assumes "\<forall>p b. snd (open_a env p b) = Inr ()" and "\<forall>p s b. snd (fp_write env p s b) = Inr ()"
  shows "length registros \<le> tot \<Longrightarrow>
    \<exists>w' ds. laco env drv sel sp tot inicio idx registros res w = (w', Inr (res @ ds))
           \<and> length ds = length (validos registros)"
proof (induction registros arbitrary: idx res w)
  case Nil
  then show ?case by (simp add: validos_def)
next
  case (Cons row registros)
  then have "tot \<noteq> 0" by auto
  from iteracao_ok [OF assms this] obtain w1 ds1
    where i: "iteracao env drv sel sp tot inicio idx row res w = (w1, Inr (res @ ds1))"
      and n1: "length ds1 = length (validos [row])"
    by blast
  from Cons.prems have "length registros \<le> tot" by simp
  from Cons.IH [OF this] obtain w' ds
    where l: "laco env drv sel sp tot inicio (Suc idx) registros (res @ ds1) w1 = (w', Inr ((res @ ds1) @ ds))"
      and n: "length ds = length (validos registros)"
    by blast
  show ?case
    using i l n1 n by (intro exI [of _ w'] exI [of _ "ds1 @ ds"]) (simp add: validos_def)
qed

section \<open>Lemmas: consolidation and teardown\<close>

lemma consolidar_Inr:
  assumes "consolidar env cs res w = (w', Inr u)"
  shows "res \<noteq> [] \<Longrightarrow> sheets w' = (sheets w)(cs \<mapsto> res)"
    and "res = [] \<Longrightarrow> sheets w' = sheets w"
    and "files w' = files w"
    and "progressos (logged w') = progressos (logged w)"
proof -
  show "files w' = files w"
    using keepsD [OF keeps_consolidar assms, of files] by simp
  show "progressos (logged w') = progressos (logged w)"
    using keepsD [OF keeps_consolidar assms, of "\<lambda>w. progressos (logged w)"] by simp
  show "res = [] \<Longrightarrow> sheets w' = sheets w"
    using assms by (auto simp: consolidar_def logging_def)
  show "sheets w' = (sheets w)(cs \<mapsto> res)" if "res \<noteq> []"
  proof -
    from assms that obtain wa ua wb ub wc uc
      where m: "call (os_makedirs env (os_dirname env cs)) w = (wa, Inr ua)"
        and t: "call (to_excel env cs res) wa = (wb, Inr ub)"
        and s: "wc = wb\<lparr>sheets := (sheets wb)(cs \<mapsto> res)\<rparr>"
        and l: "logging INFO (''Arquivo de sa'' @ [CHR 0xED] @ ''da gerado em: %s'') [S cs] wc = (w', Inr uc)"
      by (auto simp: consolidar_def df_to_excel_def bindE_Inr)
    have "sheets wa = sheets w" "sheets wb = sheets wa"
      using keepsD [OF keeps_call m, of sheets] keepsD [OF keeps_call t, of sheets] by simp_all
    moreover have "sheets w' = sheets wc"
      using l by (auto simp: logging_def)
    ultimately show ?thesis using s by simp
  qed
qed

lemma finalizar_frame:
  assumes "finalizar env d w = (w', r)"
  shows "files w' = files w" and "sheets w' = sheets w"
    and "progressos (logged w') = progressos (logged w)"
  using keepsD [OF keeps_finalizar assms, of files] keepsD [OF keeps_finalizar assms, of sheets]
    keepsD [OF keeps_finalizar assms, of "\<lambda>w. progressos (logged w)"]
  by simp_all

lemma executar_Inr_apos_preparacao:
  assumes "preparacao env usuario senha ce cfg w = (w1, Inr (sel, sp, drv, registros, inicio))"
    and "executar_extracao env usuario senha ce cs cfg w = (w', Inr ())"
  shows "\<exists>wl res w2. laco env drv sel sp (length registros) inicio 1 registros [] w1 = (wl, Inr res)
           \<and> consolidar env cs res wl = (w2, Inr ()) \<and> finalizar env (Some drv) w2 = (w', Inr ())"
proof -
  obtain w2 r where b: "bindE (laco env drv sel sp (length registros) inicio 1 registros [])
             (consolidar env cs) w1 = (w2, r)"
    by (cases "bindE (laco env drv sel sp (length registros) inicio 1 registros [])
             (consolidar env cs) w1")
  obtain w3 rf where f: "finalizar env (Some drv) w2 = (w3, rf)"
    by (cases "finalizar env (Some drv) w2")
  from assms(2) have "r = Inr () \<and> w3 = w' \<and> rf = Inr ()"
    unfolding executar_apos_preparacao [OF assms(1)] b using f
    by (auto split: sum.splits)
  with b f show ?thesis by (auto simp: bindE_Inr)
qed

lemmas run_defs =
  preparacao_def inicio_sessao_def preambulo_def carregar_selectors_def
  inicializar_streaming_def iniciar_driver_def login_def navegar_para_modulo_consulta_def
  carregar_entrada_def open_write_def write_str_def path_exists_def now_def
  bindE_def call_def getitem_def logging_def ret_def raise_def
  sim_def seletores_def planilha_def mundo_def cfg_padrao_def obter_configuracoes_def getenv_def

section \<open>Lemmas: a batch with no valid record\<close>

lemma laco_sem_validos:
  "validos registros = [] \<Longrightarrow>
   \<exists>w'. laco env drv sel sp tot inicio idx registros res w = (w', Inr res)
      \<and> hidden w' = hidden w \<and> files w' = files w \<and> sheets w' = sheets w
      \<and> quit_calls w' = quit_calls w"
proof (induction registros arbitrary: idx w)
  case Nil
  then show ?case by simp
next
  case (Cons row registros)
  from Cons.prems have r: "cpf_de row = []" and v: "validos registros = []"
    by (auto simp: validos_def split: if_splits)
  let ?w1 = "w\<lparr>logged := logged w @ [Log WARNING (''Registro sem CPF v'' @ [CHR 0xE1]
                                     @ ''lido na linha %d. Ignorando.'') [N idx]]\<rparr>"
  from Cons.IH [OF v, of "Suc idx" ?w1] show ?case
    by (auto simp: iteracao_skip [OF r])
qed

lemma keeps_configurar_logging: "quiet g \<Longrightarrow> keeps g (configurar_logging env p)"
  unfolding configurar_logging_def by (intro keeps_bindE keeps_call)

lemma keeps_main_inicio: "quiet g \<Longrightarrow> keeps g (main_inicio env environ a)"
  unfolding main_inicio_def Let_def
  by (intro keeps_bindE keeps_configurar_logging keeps_logging keeps_getitem keeps_ret)
     (simp_all add: fmt_progresso_def)

section \<open>Lemmas: teardown\<close>

lemma keeps_open_write: "apart g \<Longrightarrow> keeps g (open_write env p)"
  unfolding open_write_def
  by (intro keeps_bindE keeps_call apart_quiet) (simp_all add: keeps_def apart_def)

lemma keeps_inicializar_streaming: "apart g \<Longrightarrow> keeps g (inicializar_streaming env p)"
  unfolding inicializar_streaming_def
  by (intro keeps_bindE keeps_call keeps_open_write keeps_write_str keeps_logging_apart apart_quiet)

lemma keeps_preambulo: "apart g \<Longrightarrow> keeps g (preambulo env cfg)"
  unfolding preambulo_def
  by (intro keeps_bindE keeps_getitem keeps_carregar_selectors keeps_inicializar_streaming
        keeps_ret apart_quiet)

lemma keeps_inicio_sessao: "apart g \<Longrightarrow> keeps g (inicio_sessao env cfg)"
  unfolding inicio_sessao_def
  by (intro keeps_bindE keeps_preambulo)
     (auto intro!: keeps_bindE keeps_iniciar_driver apart_quiet)

lemma keeps_resto:
  assumes "apart g" and "\<And>w f. g (w\<lparr>sheets := f\<rparr>) = g w"
  shows "keeps g (bindE (getitem cfg ''portal_url'') (\<lambda>portal_url.
                bindE (login env drv sel portal_url usuario senha) (\<lambda>_.
                bindE (navegar_para_modulo_consulta env drv sel) (\<lambda>_.
                bindE (carregar_entrada env ce) (\<lambda>registros.
                bindE (now env) (\<lambda>inicio.
                bindE (laco env drv sel sp (length registros) inicio 1
                         registros []) (\<lambda>resultados.
                consolidar env cs resultados)))))))"
  by (intro keeps_bindE keeps_getitem keeps_login keeps_navegar keeps_carregar_entrada keeps_now
        keeps_laco keeps_consolidar apart_quiet assms)

lemma finalizar_Some_quit_calls:
  "quit_calls (fst (finalizar env (Some drv) w)) = Suc (quit_calls w)"
  by (simp add: finalizar_def entra_finally_def quit_def bindE_def call_def logging_def
      split: prod.splits sum.splits)

lemma finalizar_None:
  "finalizar env None w = (w\<lparr>finally_runs := Suc (finally_runs w)\<rparr>, Inr ())"
  by (simp add: finalizar_def entra_finally_def bindE_def ret_def)

lemma finalizar_finally_runs:
  "finally_runs (fst (finalizar env d w)) = Suc (finally_runs w)"
  by (cases d)
     (simp_all add: finalizar_def entra_finally_def quit_def bindE_def call_def logging_def ret_def
        split: prod.splits sum.splits)

lemma keeps_entra_finally:
  "(\<And>w n. g (w\<lparr>finally_runs := n\<rparr>) = g w) \<Longrightarrow> keeps g entra_finally"
  by (simp add: keeps_def entra_finally_def)

lemma apart_finally_runs [simp]: "apart finally_runs"
  by (simp add: apart_def)

text \<open>A run whose lines 293-296 raise: nothing of the \<^verbatim>\<open>try\<close> statement is reached.\<close>

lemma executar_sem_preambulo:
  assumes "preambulo env cfg w = (wx, Inl e)"
  shows "executar_extracao env usuario senha ce cs cfg w = (wx, Inl e)"
  using assms by (simp add: executar_extracao_def)

text \<open>A run whose browser does not start: the \<^verbatim>\<open>finally\<close> block is all that follows.\<close>

lemma executar_sem_driver:
  assumes "preambulo env cfg w = (w1, Inr (sel, sp))"
    and "bindE (getitem cfg ''driver_path'') (iniciar_driver env) w1 = (wx, Inl e)"
  shows "executar_extracao env usuario senha ce cs cfg w
           = (wx\<lparr>finally_runs := Suc (finally_runs wx)\<rparr>, Inl e)"
  using assms by (simp add: executar_extracao_def corpo_def finalizar_None)

text \<open>A run whose browser starts: the rest of the \<^verbatim>\<open>try\<close> body, then the block.\<close>

lemma executar_com_driver:
  assumes "preambulo env cfg w = (w1, Inr (sel, sp))"
    and "bindE (getitem cfg ''driver_path'') (iniciar_driver env) w1 = (w0, Inr drv)"
  shows "executar_extracao env usuario senha ce cs cfg w =
     (case bindE (getitem cfg ''portal_url'') (\<lambda>portal_url.
                bindE (login env drv sel portal_url usuario senha) (\<lambda>_.
                bindE (navegar_para_modulo_consulta env drv sel) (\<lambda>_.
                bindE (carregar_entrada env ce) (\<lambda>registros.
                bindE (now env) (\<lambda>inicio.
                bindE (laco env drv sel sp (length registros) inicio 1
                         registros []) (\<lambda>resultados.
                consolidar env cs resultados)))))) w0 of
        (w2, r) \<Rightarrow>
          (case finalizar env (Some drv) w2 of
             (w3, Inl e) \<Rightarrow> (w3, Inl e)
           | (w3, Inr _) \<Rightarrow> (w3, r)))"
  using assms by (simp add: executar_extracao_def corpo_def split: prod.splits)

lemma inicio_sessao_por_casos:
  "inicio_sessao env cfg w =
     (case preambulo env cfg w of
        (w1, Inl e) \<Rightarrow> (w1, Inl e)
      | (w1, Inr (sel, sp)) \<Rightarrow>
          (case bindE (getitem cfg ''driver_path'') (iniciar_driver env) w1 of
             (w0, Inl e) \<Rightarrow> (w0, Inl e)
           | (w0, Inr drv) \<Rightarrow> (w0, Inr (sel, sp, drv))))"
  by (simp add: inicio_sessao_def bindE_def ret_def split: prod.splits sum.splits)

section \<open>Lemmas: selector keys of login and navigation\<close>

lemma login_needs:
  "login env drv sel url usuario senha w = (w', Inr x) \<Longrightarrow>
   sel ''campo_usuario'' \<noteq> None \<and> sel ''campo_senha'' \<noteq> None \<and> sel ''botao_entrar'' \<noteq> None
     \<and> sel ''menu_cadastro'' \<noteq> None"
  by (auto simp: login_def bindE_Inr getitem_def raise_def split: option.splits)

lemma navegar_needs:
  "navegar_para_modulo_consulta env drv sel w = (w', Inr x) \<Longrightarrow>
   sel ''menu_cadastro'' \<noteq> None \<and> sel ''menu_proposta'' \<noteq> None"
  by (auto simp: navegar_para_modulo_consulta_def bindE_Inr getitem_def raise_def
      split: option.splits)

lemma resto_sem_seletor:
  assumes k: "k \<in> set [''campo_usuario'', ''campo_senha'', ''botao_entrar'', ''menu_cadastro'',
                          ''menu_proposta'']" "sel k = None"
    and r: "bindE (getitem cfg ''portal_url'') (\<lambda>portal_url.
                bindE (login env drv sel portal_url usuario senha) (\<lambda>_.
                bindE (navegar_para_modulo_consulta env drv sel) rest)) w = (w', r)"
  shows "(\<exists>e. r = Inl e) \<and> (quiet g \<longrightarrow> g w' = g w)"
proof -
  have no: "\<not> (\<exists>url wa xa wb xb. login env drv sel url usuario senha w = (wa, Inr xa)
               \<and> navegar_para_modulo_consulta env drv sel wa = (wb, Inr xb))"
    using k login_needs [of env drv sel _ usuario senha w] navegar_needs [of env drv sel]
    by fastforce
  show ?thesis
  proof (cases "cfg ''portal_url''")
    case None
    with r show ?thesis by (auto simp: getitem_def raise_def)
  next
    case (Some url)
    obtain wa ra where l: "login env drv sel url usuario senha w = (wa, ra)"
      by (cases "login env drv sel url usuario senha w")
    have ka: "g wa = g w" if "quiet g"
      using keepsD [OF keeps_login [OF that] l] .
    show ?thesis
    proof (cases ra)
      case (Inl e)
      with r Some l ka show ?thesis
        by (auto simp: getitem_def ret_def bindE_def)
    next
      case (Inr xa)
      obtain wb rb where n: "navegar_para_modulo_consulta env drv sel wa = (wb, rb)"
        by (cases "navegar_para_modulo_consulta env drv sel wa")
      have kb: "g wb = g wa" if "quiet g"
        using keepsD [OF keeps_navegar [OF that] n] .
      from no l Inr n obtain e where "rb = Inl e"
        by (cases rb) auto
      with r Some l Inr n ka kb show ?thesis
        by (auto simp: getitem_def ret_def bindE_def)
    qed
  qed
qed

lemma preambulo_frame:
  assumes "preambulo env cfg w = (w1, Inr (sel, sp))"
  shows "files w1 = (files w)(sp \<mapsto> cabecalho)" and "sheets w1 = sheets w"
    and "progressos (logged w1) = progressos (logged w)"
proof -
  from preambulo_Inr [OF assms] obtain sf wa where
    c: "carregar_selectors env sf w = (wa, Inr sel)" "inicializar_streaming env sp wa = (w1, Inr ())"
    by blast
  note I = inicializar_streaming_Inr [OF c(2)]
  show "files w1 = (files w)(sp \<mapsto> cabecalho)"
    using keepsD [OF keeps_carregar_selectors c(1), of files] I by simp
  show "sheets w1 = sheets w"
    using keepsD [OF keeps_carregar_selectors c(1), of sheets] I by simp
  show "progressos (logged w1) = progressos (logged w)"
    using keepsD [OF keeps_carregar_selectors c(1), of "\<lambda>w. progressos (logged w)"] I by simp
qed

section \<open>Lemmas: no division by zero\<close>

lemma nzdD: "nzd m \<Longrightarrow> m w = (w', r) \<Longrightarrow> r \<noteq> Inl ZeroDivisionError"
  by (metis nzd_def snd_conv)

lemma nzd_ret [intro!, simp]: "nzd (ret x)"
  by (simp add: nzd_def ret_def)

lemma nzd_raise [intro]: "e \<noteq> ZeroDivisionError \<Longrightarrow> nzd (raise e)"
  by (simp add: nzd_def raise_def)

lemma nzd_getitem [intro!, simp]: "nzd (getitem d k)"
  by (simp add: getitem_def nzd_raise split: option.splits)

lemma nzd_call [intro!, simp]: "nzd (call f)"
  by (simp add: nzd_def call_def split: prod.splits sum.splits)

lemma nzd_logging [intro!, simp]: "nzd (logging l fmt as)"
  by (simp add: nzd_def logging_def)

lemma nzd_now [intro!, simp]: "nzd (now env)"
  by (simp add: nzd_def now_def split: prod.splits)

lemma nzd_path_exists [intro!, simp]: "nzd (path_exists env p)"
  by (simp add: nzd_def path_exists_def)

lemma nzd_bindE [intro!]: "nzd m \<Longrightarrow> (\<And>x. nzd (f x)) \<Longrightarrow> nzd (bindE m f)"
  by (auto simp: nzd_def bindE_def split: prod.splits sum.splits) (metis snd_conv)+

lemma nzd_if [intro!]: "nzd m \<Longrightarrow> nzd n \<Longrightarrow> nzd (if c then m else n)"
  by simp

lemma nzd_state [intro!, simp]: "nzd (\<lambda>w. (f w, Inr x))"
  by (simp add: nzd_def)

lemma nzd_login: "nzd (login env drv sel url u s)"
  unfolding login_def by (intro nzd_bindE nzd_call nzd_getitem nzd_logging)

lemma nzd_navegar: "nzd (navegar_para_modulo_consulta env drv sel)"
  unfolding navegar_para_modulo_consulta_def by (intro nzd_bindE nzd_call nzd_getitem nzd_logging)

lemma nzd_carregar_selectors: "nzd (carregar_selectors env p)"
  unfolding carregar_selectors_def
  by (intro nzd_bindE nzd_call nzd_if nzd_raise nzd_path_exists)
     (simp_all add: nzd_raise split: json.splits)

lemma nzd_carregar_entrada: "nzd (carregar_entrada env p)"
  unfolding carregar_entrada_def
  by (intro nzd_bindE nzd_call nzd_if nzd_raise nzd_ret nzd_logging nzd_path_exists) simp_all

lemma nzd_inicializar_streaming: "nzd (inicializar_streaming env p)"
  unfolding inicializar_streaming_def open_write_def write_str_def
  by (intro nzd_bindE nzd_call nzd_logging nzd_state)

lemma nzd_append_streaming: "nzd (append_streaming env p c st m)"
  unfolding append_streaming_def open_append_def write_str_def
  by (intro nzd_bindE nzd_call nzd_state)

lemma nzd_tentar_extrair: "nzd (tentar_extrair env drv sel cpf)"
  unfolding nzd_def using tentar_extrair_total [of env drv sel cpf] by (metis snd_conv sum.distinct(1))

lemma nzd_porcentagem: "tot \<noteq> 0 \<Longrightarrow> nzd (porcentagem idx tot)"
  by (simp add: porcentagem_def)

lemma nzd_iteracao: "tot \<noteq> 0 \<Longrightarrow> nzd (iteracao env drv sel sp tot inicio idx row res)"
  unfolding iteracao_def Let_def
  by (intro nzd_if nzd_bindE nzd_logging nzd_ret nzd_tentar_extrair)
     (auto intro!: nzd_bindE nzd_append_streaming nzd_porcentagem)

lemma nzd_laco:
  "length registros \<le> tot \<Longrightarrow> nzd (laco env drv sel sp tot inicio idx registros res)"
proof (induction registros arbitrary: idx res)
  case Nil
  then show ?case by (simp add: nzd_def)
next
  case (Cons row registros)
  then have t: "tot \<noteq> 0" and l: "length registros \<le> tot" by auto
  show ?case
    unfolding nzd_def
  proof
    fix w
    obtain w1 r where i: "iteracao env drv sel sp tot inicio idx row res w = (w1, r)"
      by (metis prod.collapse)
    show "snd (laco env drv sel sp tot inicio idx (row # registros) res w) \<noteq> Inl ZeroDivisionError"
    proof (cases r)
      case (Inl e)
      with i nzdD [OF nzd_iteracao [OF t] i] show ?thesis by simp
    next
      case (Inr res1)
      with i Cons.IH [OF l, of "Suc idx" res1] show ?thesis by (simp add: nzd_def)
    qed
  qed
qed

lemma nzd_consolidar: "nzd (consolidar env p rs)"
  unfolding consolidar_def df_to_excel_def
  by (intro nzd_if nzd_bindE nzd_call nzd_logging nzd_state)

lemma nzd_finalizar: "nzd (finalizar env d)"
  by (cases d) (auto simp: finalizar_def entra_finally_def quit_def nzd_def bindE_def call_def
      logging_def ret_def
      split: prod.splits sum.splits)

lemma nzd_preambulo: "nzd (preambulo env cfg)"
  unfolding preambulo_def
  by (intro nzd_bindE nzd_getitem nzd_carregar_selectors nzd_inicializar_streaming nzd_ret)

lemma nzd_resto:
  "nzd (bindE (getitem cfg ''portal_url'') (\<lambda>portal_url.
                bindE (login env drv sel portal_url usuario senha) (\<lambda>_.
                bindE (navegar_para_modulo_consulta env drv sel) (\<lambda>_.
                bindE (carregar_entrada env ce) (\<lambda>registros.
                bindE (now env) (\<lambda>inicio.
                bindE (laco env drv sel sp (length registros) inicio 1
                         registros []) (\<lambda>resultados.
                consolidar env cs resultados)))))))"
  by (intro nzd_bindE nzd_getitem nzd_login nzd_navegar nzd_carregar_entrada nzd_now
        nzd_laco nzd_consolidar) simp

lemma corpo_nzd: "snd (corpo env usuario senha ce cs cfg sel sp w) \<noteq> Inl ZeroDivisionError"
proof -
  obtain wa ra where s: "bindE (getitem cfg ''driver_path'') (iniciar_driver env) w = (wa, ra)"
    by (metis prod.collapse)
  have n: "nzd (bindE (getitem cfg ''driver_path'') (iniciar_driver env))"
    unfolding iniciar_driver_def by (intro nzd_bindE nzd_getitem nzd_call)
  show ?thesis
  proof (cases ra)
    case (Inl e)
    with s nzdD [OF n s] show ?thesis by (simp add: corpo_def)
  next
    case (Inr drv)
    let ?resto = "bindE (getitem cfg ''portal_url'') (\<lambda>portal_url.
                bindE (login env drv sel portal_url usuario senha) (\<lambda>_.
                bindE (navegar_para_modulo_consulta env drv sel) (\<lambda>_.
                bindE (carregar_entrada env ce) (\<lambda>registros.
                bindE (now env) (\<lambda>inicio.
                bindE (laco env drv sel sp (length registros) inicio 1
                         registros []) (\<lambda>resultados.
                consolidar env cs resultados))))))"
    obtain w2 r where rr: "?resto wa = (w2, r)"
      by (cases "?resto wa")
    from nzdD [OF nzd_resto rr] s Inr rr show ?thesis
      by (simp add: corpo_def)
  qed
qed

text \<open>The division of the model is a real one: with a total of 0 the loop body raises.\<close>

lemma laco_total_zero:
  "snd (laco (sim (JDict seletores) (planilha []) []) 0 seletores ''dados/s.txt'' 0 0 1
          (records (planilha [''111''])) [] mundo) = Inl ZeroDivisionError"
  by code_simp

section \<open>Lemmas: the lines of the stream log\<close>










section \<open>The claims\<close>

text \<open>
  C1, as the code has it. \<^verbatim>\<open>extrair_dados_para_cpf\<close> itself lets its exceptions out;
  the \<^verbatim>\<open>try\<close>/\<^verbatim>\<open>except Exception\<close> around its call in the loop of
  \<^verbatim>\<open>executar_extracao\<close> catches every one of them and turns it into a result of status
  \<^verbatim>\<open>erro\<close>. So whatever the browser does, a failure of the per-record protocol never
  aborts the batch: when the stream log can be appended to, the loop runs through every
  record of the batch and retains one result per record that is not skipped.
\<close>

theorem falha_de_registro_nao_aborta:
  assumes "\<forall>p b. snd (open_a env p b) = Inr ()"
    and "\<forall>p s b. snd (fp_write env p s b) = Inr ()"
    and "length registros \<le> tot"
  shows "(\<exists>w1 d m. tentar_extrair env drv sel cpf w = (w1, Inr (d, Status d, m)) \<and> CPF d = cpf
            \<and> ((\<exists>exc. snd (extrair_dados_para_cpf env drv sel cpf 20 w) = Inl exc)
                 \<longrightarrow> Status d = ''erro''))
       \<and> (\<exists>w' ds. laco env drv sel sp tot inicio idx registros res w = (w', Inr (res @ ds))
             \<and> length ds = length (validos registros))"
proof -
  obtain w1 d m where t: "tentar_extrair env drv sel cpf w = (w1, Inr (d, Status d, m))" "CPF d = cpf"
    using tentar_extrair_total [of env drv sel cpf w] by blast
  have "Status d = ''erro''" if "snd (extrair_dados_para_cpf env drv sel cpf 20 w) = Inl exc" for exc
    using tentar_extrair_Inl [OF returned [OF that]] t by simp
  with t laco_ok [OF assms] show ?thesis by blast
qed

theorem falha_de_registro_nao_aborta_witness:
  "(\<forall>p b. snd (open_a (sim (JDict seletores) (planilha []) [(''grid'', ''333'')]) p b) = Inr ())
   \<and> (\<forall>p s b. snd (fp_write (sim (JDict seletores) (planilha []) [(''grid'', ''333'')]) p s b) = Inr ())
   \<and> length (records (planilha [''333'', ''444''])) \<le> 2
   \<and> snd (extrair_dados_para_cpf (sim (JDict seletores) (planilha []) [(''grid'', ''333'')]) 0
            seletores ''333'' 20 mundo) = Inl (External ''TimeoutException'')
   \<and> (\<exists>w1 d m. tentar_extrair (sim (JDict seletores) (planilha []) [(''grid'', ''333'')]) 0
                    seletores ''333'' mundo = (w1, Inr (d, Status d, m))
             \<and> CPF d = ''333'' \<and> Status d = ''erro'')
   \<and> (\<exists>w' ds. laco (sim (JDict seletores) (planilha []) [(''grid'', ''333'')]) 0 seletores
                  ''dados/s.txt'' 2 0 1 (records (planilha [''333'', ''444''])) [] mundo
                = (w', Inr ([] @ ds))
             \<and> length ds = length (validos (records (planilha [''333'', ''444'']))))"
proof -
  have h1: "\<forall>p b. snd (open_a (sim (JDict seletores) (planilha []) [(''grid'', ''333'')]) p b) = Inr ()"
    by (simp add: sim_def)
  have h2: "\<forall>p s b. snd (fp_write (sim (JDict seletores) (planilha []) [(''grid'', ''333'')]) p s b) = Inr ()"
    by (simp add: sim_def)
  have h3: "length (records (planilha [''333'', ''444''])) \<le> 2"
    by (simp add: planilha_def)
  have h4: "snd (extrair_dados_para_cpf (sim (JDict seletores) (planilha []) [(''grid'', ''333'')]) 0
            seletores ''333'' 20 mundo) = Inl (External ''TimeoutException'')"
    by code_simp
  show ?thesis
    using falha_de_registro_nao_aborta [OF h1 h2 h3, of 0 seletores "''333''" mundo "''dados/s.txt''" 0 1 "[]"]
      h1 h2 h3 h4
    by blast
qed

text \<open>
  C1 as stated fails: with the results grid never appearing for the identifier,
  \<^verbatim>\<open>extrair_dados_para_cpf\<close> leaves by a \<^verbatim>\<open>TimeoutException\<close> instead of returning
  a result of status \<^verbatim>\<open>erro\<close>.
\<close>

theorem extrair_dados_para_cpf_propaga:
  "snd (extrair_dados_para_cpf (sim (JDict seletores) (planilha []) [(''grid'', ''333'')]) 0
          seletores ''333'' 20 mundo) = Inl (External ''TimeoutException'')"
  by code_simp







text \<open>
  C4, as the code has it. The selector keys read before the loop are those of login and
  navigation: \<^verbatim>\<open>campo_usuario\<close>, \<^verbatim>\<open>campo_senha\<close>, \<^verbatim>\<open>botao_entrar\<close>,
  \<^verbatim>\<open>menu_cadastro\<close> and \<^verbatim>\<open>menu_proposta\<close>. When one of them is absent from the
  selector map that was loaded, and the stream log was initialised,
  \<^verbatim>\<open>executar_extracao\<close> ends with an exception before any record is processed: the
  stream log holds its header line only, no spreadsheet is written and no progress is
  reported.
\<close>

theorem seletor_ausente_aborta:
  assumes "preambulo env cfg w = (w1, Inr (sel, sp))"
    and "k \<in> set [''campo_usuario'', ''campo_senha'', ''botao_entrar'', ''menu_cadastro'',
                    ''menu_proposta'']"
    and "sel k = None"
  shows "\<exists>w' e. executar_extracao env usuario senha ce cs cfg w = (w', Inl e)
           \<and> files w' sp = Some cabecalho \<and> sheets w' = sheets w
           \<and> progressos (logged w') = progressos (logged w)"
proof -
  obtain w2 d r where c: "corpo env usuario senha ce cs cfg sel sp w1 = ((w2, d), r)"
    by (metis prod.collapse)
  have body: "(\<exists>e. r = Inl e) \<and> files w2 = files w1 \<and> sheets w2 = sheets w1
                \<and> progressos (logged w2) = progressos (logged w1)"
  proof -
    obtain wa ra where s: "bindE (getitem cfg ''driver_path'') (iniciar_driver env) w1 = (wa, ra)"
      by (metis prod.collapse)
    have ka: "g wa = g w1" if "quiet g" for g :: "'a world \<Rightarrow> 'c"
      using keepsD [OF keeps_bindE [OF keeps_getitem keeps_iniciar_driver [OF that]] s] .
    show ?thesis
    proof (cases ra)
      case (Inl e)
      with c s ka [of files] ka [of sheets] ka [of "\<lambda>w. progressos (logged w)"] show ?thesis
        by (auto simp: corpo_def)
    next
      case (Inr drv)
      let ?resto = "bindE (getitem cfg ''portal_url'') (\<lambda>portal_url.
                bindE (login env drv sel portal_url usuario senha) (\<lambda>_.
                bindE (navegar_para_modulo_consulta env drv sel) (\<lambda>_.
                bindE (carregar_entrada env ce) (\<lambda>registros.
                bindE (now env) (\<lambda>inicio.
                bindE (laco env drv sel sp (length registros) inicio 1
                         registros []) (\<lambda>resultados.
                consolidar env cs resultados))))))"
      from c s Inr have rr: "?resto wa = (w2, r)"
        by (simp add: corpo_def split: prod.splits)
      note R = resto_sem_seletor [OF assms(2,3) rr]
      show ?thesis
        using R [of files] R [of sheets] R [of "\<lambda>w. progressos (logged w)"]
          ka [of files] ka [of sheets] ka [of "\<lambda>w. progressos (logged w)"]
        by simp
    qed
  qed
  then obtain e where e: "r = Inl e" by blast
  obtain w3 rf where f: "finalizar env d w2 = (w3, rf)"
    by (metis prod.collapse)
  have "\<exists>e'. executar_extracao env usuario senha ce cs cfg w = (w3, Inl e')"
    using assms(1) c e f by (cases rf) (simp_all add: executar_extracao_def)
  moreover have "files w3 sp = Some cabecalho"
    using finalizar_frame(1) [OF f] body preambulo_frame(1) [OF assms(1)] by simp
  moreover have "sheets w3 = sheets w"
    using finalizar_frame(2) [OF f] body preambulo_frame(2) [OF assms(1)] by simp
  moreover have "progressos (logged w3) = progressos (logged w)"
    using finalizar_frame(3) [OF f] body preambulo_frame(3) [OF assms(1)] by simp
  ultimately show ?thesis by blast
qed

theorem seletor_ausente_aborta_witness:
  "snd (preambulo (sim (JDict (seletores_sem ''menu_proposta'')) (planilha [''111'']) [])
          cfg_padrao mundo)
     = Inr (seletores_sem ''menu_proposta'', ''./dados/streaming_saida.txt'')
   \<and> ''menu_proposta'' \<in> set [''campo_usuario'', ''campo_senha'', ''botao_entrar'',
                                ''menu_cadastro'', ''menu_proposta'']
   \<and> seletores_sem ''menu_proposta'' ''menu_proposta'' = None
   \<and> (\<exists>w' e. executar_extracao
                  (sim (JDict (seletores_sem ''menu_proposta'')) (planilha [''111'']) [])
                  ''u'' ''s'' ''in.xlsx'' ''out/o.xlsx'' cfg_padrao mundo = (w', Inl e)
          \<and> files w' ''./dados/streaming_saida.txt'' = Some cabecalho
          \<and> sheets w' = sheets mundo
          \<and> progressos (logged w') = progressos (logged mundo))"
proof -
  have h1: "snd (preambulo (sim (JDict (seletores_sem ''menu_proposta'')) (planilha [''111'']) [])
          cfg_padrao mundo)
     = Inr (seletores_sem ''menu_proposta'', ''./dados/streaming_saida.txt'')"
    by (simp add: run_defs seletores_sem_def)
  have h2: "''menu_proposta'' \<in> set [''campo_usuario'', ''campo_senha'', ''botao_entrar'',
                                ''menu_cadastro'', ''menu_proposta'']"
    by simp
  have h3: "seletores_sem ''menu_proposta'' ''menu_proposta'' = None"
    by (simp add: seletores_sem_def)
  show ?thesis
    using seletor_ausente_aborta [OF returned [OF h1] h2 h3, of "''u''" "''s''" "''in.xlsx''" "''out/o.xlsx''"]
      h1 h2 h3
    by blast
qed

text \<open>
  C4 as stated fails for the keys that only the per-record protocol reads: without
  \<^verbatim>\<open>campo_cpf\<close> the batch does not fail. The record is processed, its
  \<^verbatim>\<open>KeyError\<close> is caught as a record error, the stream log gets a data line and
  \<^verbatim>\<open>executar_extracao\<close> returns.
\<close>

theorem seletor_de_registro_ausente_nao_aborta:
  "seletores_sem ''campo_cpf'' ''campo_cpf'' = None
   \<and> snd (executar_extracao (sim (JDict (seletores_sem ''campo_cpf'')) (planilha [''111'']) [])
            ''u'' ''s'' ''in.xlsx'' ''out/o.xlsx'' cfg_padrao mundo) = Inr ()
   \<and> content (fst (executar_extracao
                      (sim (JDict (seletores_sem ''campo_cpf'')) (planilha [''111'']) [])
                      ''u'' ''s'' ''in.xlsx'' ''out/o.xlsx'' cfg_padrao mundo))
        ''./dados/streaming_saida.txt''
       = cabecalho @ linha ''111'' ''erro'' ''erro: KeyError''"
  by code_simp

text \<open>
  C5, as the code has it. The total of a progress report is \<^verbatim>\<open>len(registros)\<close>, the
  number of all input records, skipped rows included, and the index is the position of
  the row in the input. When \<^verbatim>\<open>executar_extracao\<close> returns, the progress reports it
  has logged are those of the rows that are not skipped, each with its input position and
  with the number of input records as total. For the identifiers 111, empty, 222 this
  gives the reports 1/3 and 3/3.
\<close>

theorem total_do_progresso:
  assumes "preparacao env usuario senha ce cfg w = (w1, Inr (sel, sp, drv, registros, inicio))"
    and "executar_extracao env usuario senha ce cs cfg w = (w', Inr ())"
  shows "progressos (logged w')
           = progressos (logged w) @ map (\<lambda>i. (i, length registros)) (posicoes 1 registros)"
proof -
  from executar_Inr_apos_preparacao [OF assms] obtain wl res w2
    where l: "laco env drv sel sp (length registros) inicio 1 registros [] w1 = (wl, Inr res)"
      and c: "consolidar env cs res wl = (w2, Inr ())"
      and f: "finalizar env (Some drv) w2 = (w', Inr ())"
    by blast
  from laco_Inr [OF l] have "progressos (logged wl)
      = progressos (logged w1) @ map (\<lambda>i. (i, length registros)) (posicoes 1 registros)"
    by blast
  then show ?thesis
    using preparacao_frame(4) [OF assms(1)] consolidar_Inr(4) [OF c] finalizar_frame(3) [OF f]
    by simp
qed

theorem total_do_progresso_witness:
  "snd (preparacao (sim (JDict seletores) (planilha [''111'', '''', ''222'']) [])
          ''u'' ''s'' ''in.xlsx'' cfg_padrao mundo)
     = Inr (seletores, ''./dados/streaming_saida.txt'', 0,
            records (planilha [''111'', '''', ''222'']), 0)
   \<and> snd (executar_extracao (sim (JDict seletores) (planilha [''111'', '''', ''222'']) [])
            ''u'' ''s'' ''in.xlsx'' ''out/o.xlsx'' cfg_padrao mundo) = Inr ()
   \<and> progressos (logged (fst (executar_extracao
          (sim (JDict seletores) (planilha [''111'', '''', ''222'']) [])
          ''u'' ''s'' ''in.xlsx'' ''out/o.xlsx'' cfg_padrao mundo)))
       = [(1, 3), (3, 3)]"
proof -
  let ?E = "sim (JDict seletores) (planilha [''111'', '''', ''222'']) []"
  have h1: "snd (preparacao ?E ''u'' ''s'' ''in.xlsx'' cfg_padrao mundo)
     = Inr (seletores, ''./dados/streaming_saida.txt'', 0,
            records (planilha [''111'', '''', ''222'']), 0)"
    by (simp add: run_defs)
  have h2: "snd (executar_extracao ?E ''u'' ''s'' ''in.xlsx'' ''out/o.xlsx'' cfg_padrao mundo) = Inr ()"
    by code_simp
  have h3: "progressos (logged mundo) @ map (\<lambda>i. (i, length (records (planilha [''111'', '''', ''222'']))))
              (posicoes 1 (records (planilha [''111'', '''', ''222'']))) = [(1, 3), (3, 3)]"
    by code_simp
  show ?thesis
    using total_do_progresso [OF returned [OF h1] returned [OF h2]] h1 h2 h3 by simp
qed

text \<open>
  C5 as stated fails: for the identifiers 111, empty, 222 the two progress reports carry
  the total 3, while only 2 records have a non-empty identifier.
\<close>

theorem total_do_progresso_conta_ignorados:
  "map snd (progressos (logged (fst (executar_extracao
          (sim (JDict seletores) (planilha [''111'', '''', ''222'']) [])
          ''u'' ''s'' ''in.xlsx'' ''out/o.xlsx'' cfg_padrao mundo)))) = [3, 3]
   \<and> length (validos (records (planilha [''111'', '''', ''222'']))) = 2"
  by code_simp

text \<open>
  C6, as the code has it. \<^verbatim>\<open>driver.quit()\<close> is called exactly once in every run in
  which the browser was started, whatever happens afterwards (login, navigation, loading
  the input, the records, the consolidation and the teardown itself may each fail or
  not), and it is not called in a run in which the browser was not started. The
  \<^verbatim>\<open>finally\<close> block is entered exactly once in every run that reaches the
  \<^verbatim>\<open>try\<close> statement, that is, whose lines 293-296 (selectors loaded, stream log
  initialised) return, also when the browser then fails to start; it is not entered in a
  run whose lines 293-296 raise.
\<close>

theorem teardown_e_finally:
  "quit_calls (fst (executar_extracao env usuario senha ce cs cfg w))
     = quit_calls w + (case snd (inicio_sessao env cfg w) of Inr s \<Rightarrow> 1 | Inl e \<Rightarrow> 0)
   \<and> finally_runs (fst (executar_extracao env usuario senha ce cs cfg w))
     = finally_runs w + (case snd (preambulo env cfg w) of Inr s \<Rightarrow> 1 | Inl e \<Rightarrow> 0)"
proof -
  obtain w1 r where p: "preambulo env cfg w = (w1, r)"
    by (cases "preambulo env cfg w")
  have k1: "quit_calls w1 = quit_calls w" "finally_runs w1 = finally_runs w"
    using keepsD [OF keeps_preambulo p, of quit_calls] keepsD [OF keeps_preambulo p, of finally_runs]
    by simp_all
  show ?thesis
  proof (cases r)
    case (Inl e)
    with p k1 executar_sem_preambulo [of env cfg w w1 e usuario senha ce cs] show ?thesis
      by (simp add: inicio_sessao_por_casos)
  next
    case (Inr x)
    obtain sel sp where x: "x = (sel, sp)" by (cases x)
    note p' = p [unfolded Inr x]
    obtain w0 rd where d: "bindE (getitem cfg ''driver_path'') (iniciar_driver env) w1 = (w0, rd)"
      by (cases "bindE (getitem cfg ''driver_path'') (iniciar_driver env) w1")
    have kd: "keeps g (bindE (getitem cfg ''driver_path'') (iniciar_driver env))"
      if "apart g" for g :: "'a world \<Rightarrow> nat"
      using that by (intro keeps_bindE keeps_getitem keeps_iniciar_driver apart_quiet)
    have k0: "quit_calls w0 = quit_calls w1" "finally_runs w0 = finally_runs w1"
      using keepsD [OF kd d, of quit_calls] keepsD [OF kd d, of finally_runs] by simp_all
    show ?thesis
    proof (cases rd)
      case (Inl e)
      with p' d k0 k1 executar_sem_driver [OF p', of wx e usuario senha ce cs for wx]
      show ?thesis
        by (simp add: inicio_sessao_por_casos executar_sem_driver [OF p'])
    next
      case (Inr drv)
      note d' = d [unfolded Inr]
      let ?resto = "bindE (getitem cfg ''portal_url'') (\<lambda>portal_url.
                bindE (login env drv sel portal_url usuario senha) (\<lambda>_.
                bindE (navegar_para_modulo_consulta env drv sel) (\<lambda>_.
                bindE (carregar_entrada env ce) (\<lambda>registros.
                bindE (now env) (\<lambda>inicio.
                bindE (laco env drv sel sp (length registros) inicio 1
                         registros []) (\<lambda>resultados.
                consolidar env cs resultados))))))"
      obtain w2 rr where b: "?resto w0 = (w2, rr)"
        by (cases "?resto w0")
      have k2: "quit_calls w2 = quit_calls w0" "finally_runs w2 = finally_runs w0"
        using keepsD [OF keeps_resto b, of quit_calls] keepsD [OF keeps_resto b, of finally_runs]
        by simp_all
      obtain w3 rf where f: "finalizar env (Some drv) w2 = (w3, rf)"
        by (cases "finalizar env (Some drv) w2")
      have k3: "quit_calls w3 = Suc (quit_calls w2)" "finally_runs w3 = Suc (finally_runs w2)"
        using finalizar_Some_quit_calls [of env drv w2] finalizar_finally_runs [of env "Some drv" w2] f
        by simp_all
      have "fst (executar_extracao env usuario senha ce cs cfg w) = w3"
        unfolding executar_com_driver [OF p' d'] b prod.case f
        by (simp split: sum.splits)
      then show ?thesis
        using p' d' k0 k1 k2 k3 by (simp add: inicio_sessao_por_casos)
    qed
  qed
qed

theorem teardown_e_finally_witness:
  "quit_calls (fst (executar_extracao
          (sim (JDict seletores) (planilha [''111'']) [(''cadastro'', ''s'')])
          ''u'' ''s'' ''in.xlsx'' ''out/o.xlsx'' cfg_padrao mundo)) = 1
   \<and> finally_runs (fst (executar_extracao
          (sim (JDict seletores) (planilha [''111'']) [(''cadastro'', ''s'')])
          ''u'' ''s'' ''in.xlsx'' ''out/o.xlsx'' cfg_padrao mundo)) = 1
   \<and> quit_calls (fst (executar_extracao
          (sim (JDict seletores) (planilha [''111'']) [])
          ''u'' ''s'' ''in.xlsx'' ''out/o.xlsx''
          (obter_configuracoes [''DRIVER_PATH'' \<mapsto> []]) mundo)) = 0
   \<and> finally_runs (fst (executar_extracao
          (sim (JDict seletores) (planilha [''111'']) [])
          ''u'' ''s'' ''in.xlsx'' ''out/o.xlsx''
          (obter_configuracoes [''DRIVER_PATH'' \<mapsto> []]) mundo)) = 1"
proof -
  have a: "(case snd (inicio_sessao (sim (JDict seletores) (planilha [''111'']) [(''cadastro'', ''s'')])
                   cfg_padrao mundo) of Inr s \<Rightarrow> 1 | Inl e \<Rightarrow> 0) = (1::nat)"
    by code_simp
  have b: "(case snd (preambulo (sim (JDict seletores) (planilha [''111'']) [(''cadastro'', ''s'')])
                   cfg_padrao mundo) of Inr s \<Rightarrow> 1 | Inl e \<Rightarrow> 0) = (1::nat)"
    by code_simp
  have c: "(case snd (inicio_sessao (sim (JDict seletores) (planilha [''111'']) [])
                   (obter_configuracoes [''DRIVER_PATH'' \<mapsto> []]) mundo)
              of Inr s \<Rightarrow> 1 | Inl e \<Rightarrow> 0) = (0::nat)"
    by code_simp
  have d: "(case snd (preambulo (sim (JDict seletores) (planilha [''111'']) [])
                   (obter_configuracoes [''DRIVER_PATH'' \<mapsto> []]) mundo)
              of Inr s \<Rightarrow> 1 | Inl e \<Rightarrow> 0) = (1::nat)"
    by code_simp
  have m: "quit_calls mundo = 0" "finally_runs mundo = 0"
    by (simp_all add: mundo_def)
  show ?thesis
    using teardown_e_finally [of "sim (JDict seletores) (planilha [''111'']) [(''cadastro'', ''s'')]"
        "''u''" "''s''" "''in.xlsx''" "''out/o.xlsx''" cfg_padrao mundo]
      teardown_e_finally [of "sim (JDict seletores) (planilha [''111'']) []"
        "''u''" "''s''" "''in.xlsx''" "''out/o.xlsx''" "obter_configuracoes [''DRIVER_PATH'' \<mapsto> []]" mundo]
      a b c d m
    by simp
qed

text \<open>
  C6 as stated fails in its last clause: when the selectors file does not hold a
  dictionary, line 293 raises before the \<^verbatim>\<open>try\<close> statement. The session is never
  started, \<^verbatim>\<open>driver.quit()\<close> is not called, and the \<^verbatim>\<open>finally\<close> block is not
  executed either.
\<close>

theorem finally_nao_executa_sem_try:
  "(case snd (inicio_sessao (sim JOther (planilha [''111'']) []) cfg_padrao mundo)
      of Inl e \<Rightarrow> type_name e | Inr s \<Rightarrow> []) = ''ValueError''
   \<and> (case snd (executar_extracao (sim JOther (planilha [''111'']) [])
                  ''u'' ''s'' ''in.xlsx'' ''out/o.xlsx'' cfg_padrao mundo)
        of Inl e \<Rightarrow> type_name e | Inr u \<Rightarrow> []) = ''ValueError''
   \<and> quit_calls (fst (executar_extracao (sim JOther (planilha [''111'']) [])
                         ''u'' ''s'' ''in.xlsx'' ''out/o.xlsx'' cfg_padrao mundo)) = 0
   \<and> finally_runs (fst (executar_extracao (sim JOther (planilha [''111'']) [])
                           ''u'' ''s'' ''in.xlsx'' ''out/o.xlsx'' cfg_padrao mundo)) = 0"
  by code_simp

text \<open>
  C7. For every record that is not skipped and whose iteration completes: if
  \<^verbatim>\<open>extrair_dados_para_cpf\<close> raised an exception, the result retained in
  \<^verbatim>\<open>resultados\<close> has status \<^verbatim>\<open>erro\<close> with \<^verbatim>\<open>ParcelasPagas\<close> and
  \<^verbatim>\<open>Saldo\<close> unset, and the line appended to the stream log is
  \<^verbatim>\<open>cpf;erro;erro: <class of the exception>\<close>; if it returned, the retained result
  has status \<^verbatim>\<open>ok\<close>. So the retained status is \<^verbatim>\<open>erro\<close> exactly when an exception
  occurred in that record's protocol.
\<close>

theorem resultado_de_erro:
  assumes "cpf_de row \<noteq> []"
    and "iteracao env drv sel sp tot inicio idx row res w = (w', Inr res')"
  shows "(case snd (extrair_dados_para_cpf env drv sel (cpf_de row) 20 w) of
            Inl exc \<Rightarrow>
              res' = res @ [\<lparr>CPF = cpf_de row, Status = ''erro'', ParcelasPagas = None, Saldo = None\<rparr>]
              \<and> content w' sp = content w sp @ linha (cpf_de row) ''erro'' (''erro: '' @ type_name exc)
          | Inr dados \<Rightarrow>
              res' = res @ [\<lparr>CPF = cpf_de row, Status = ''ok'', ParcelasPagas = Some 12,
                              Saldo = Some 1235\<rparr>]
              \<and> content w' sp = content w sp @ linha (cpf_de row) ''ok'' concluida)
         \<and> (Status (last res') = ''erro''
              \<longleftrightarrow> (\<exists>exc. snd (extrair_dados_para_cpf env drv sel (cpf_de row) 20 w) = Inl exc))"
proof -
  from iteracao_Inr [OF assms] obtain w1 d m
    where t: "tentar_extrair env drv sel (cpf_de row) w = (w1, Inr (d, Status d, m))"
      and r: "res' = res @ [d]"
      and f: "files w' = (files w)(sp \<mapsto> content w sp @ linha (cpf_de row) (Status d) m)"
    by blast
  have c: "content w' sp = content w sp @ linha (cpf_de row) (Status d) m"
    using f by (simp add: content_def)
  obtain we x where e: "extrair_dados_para_cpf env drv sel (cpf_de row) 20 w = (we, x)"
    by (cases "extrair_dados_para_cpf env drv sel (cpf_de row) 20 w")
  show ?thesis
  proof (cases x)
    case (Inl exc)
    from e Inl have "extrair_dados_para_cpf env drv sel (cpf_de row) 20 w = (we, Inl exc)"
      by simp
    from tentar_extrair_Inl [OF this] t
    have "d = \<lparr>CPF = cpf_de row, Status = ''erro'', ParcelasPagas = None, Saldo = None\<rparr>"
      "m = ''erro: '' @ type_name exc"
      by auto
    then show ?thesis using Inl e r c by simp
  next
    case (Inr dados)
    from e Inr have "extrair_dados_para_cpf env drv sel (cpf_de row) 20 w = (we, Inr dados)"
      by simp
    from tentar_extrair_Inr [OF this] t have "d = dados" "m = concluida"
      by auto
    moreover have "dados = \<lparr>CPF = cpf_de row, Status = ''ok'', ParcelasPagas = Some 12, Saldo = Some 1235\<rparr>"
      using extrair_Inr e Inr by blast
    ultimately show ?thesis using Inr e r c by simp
  qed
qed

theorem resultado_de_erro_witness:
  "cpf_de [''CPF'' \<mapsto> '' 333 ''] \<noteq> []
   \<and> snd (iteracao (sim (JDict seletores) (planilha []) [(''grid'', ''333'')]) 0 seletores
            ''dados/s.txt'' 1 0 1 [''CPF'' \<mapsto> '' 333 ''] [] mundo)
       = Inr [\<lparr>CPF = ''333'', Status = ''erro'', ParcelasPagas = None, Saldo = None\<rparr>]
   \<and> snd (extrair_dados_para_cpf (sim (JDict seletores) (planilha []) [(''grid'', ''333'')]) 0
            seletores ''333'' 20 mundo) = Inl (External ''TimeoutException'')
   \<and> content (fst (iteracao (sim (JDict seletores) (planilha []) [(''grid'', ''333'')]) 0 seletores
                      ''dados/s.txt'' 1 0 1 [''CPF'' \<mapsto> '' 333 ''] [] mundo)) ''dados/s.txt''
       = content mundo ''dados/s.txt'' @ linha ''333'' ''erro'' ''erro: TimeoutException''"
proof -
  have h1: "cpf_de [''CPF'' \<mapsto> '' 333 ''] \<noteq> []"
    by code_simp
  have h2: "snd (iteracao (sim (JDict seletores) (planilha []) [(''grid'', ''333'')]) 0 seletores
            ''dados/s.txt'' 1 0 1 [''CPF'' \<mapsto> '' 333 ''] [] mundo)
       = Inr [\<lparr>CPF = ''333'', Status = ''erro'', ParcelasPagas = None, Saldo = None\<rparr>]"
    by code_simp
  have h3: "snd (extrair_dados_para_cpf (sim (JDict seletores) (planilha []) [(''grid'', ''333'')]) 0
            seletores ''333'' 20 mundo) = Inl (External ''TimeoutException'')"
    by code_simp
  have h4: "cpf_de [''CPF'' \<mapsto> '' 333 ''] = ''333''"
    by code_simp
  show ?thesis
    using resultado_de_erro [OF h1 returned [OF h2]] h1 h2 h3
    by (simp add: h4)
qed

text \<open>
  C8. Initialising the stream log is idempotent: when \<^verbatim>\<open>inicializar_streaming\<close> is
  called twice in succession on a path and both calls return, the file holds exactly the
  header line, and the files are as the first call left them, whatever the file held
  before. Each call truncates: the header is never duplicated.
\<close>

theorem inicializar_streaming_idempotente:
  assumes "inicializar_streaming env p w = (w1, Inr ())"
    and "inicializar_streaming env p w1 = (w2, Inr ())"
  shows "files w1 p = Some cabecalho \<and> files w2 p = Some cabecalho \<and> files w2 = files w1"
  using inicializar_streaming_Inr(1) [OF assms(1)] inicializar_streaming_Inr(1) [OF assms(2)]
  by simp

theorem inicializar_streaming_idempotente_witness:
  "snd (inicializar_streaming (sim JOther (planilha []) []) ''dados/s.txt''
          (mundo\<lparr>files := [''dados/s.txt'' \<mapsto> ''velho'']\<rparr>)) = Inr ()
   \<and> snd (inicializar_streaming (sim JOther (planilha []) []) ''dados/s.txt''
            (fst (inicializar_streaming (sim JOther (planilha []) []) ''dados/s.txt''
                    (mundo\<lparr>files := [''dados/s.txt'' \<mapsto> ''velho'']\<rparr>)))) = Inr ()
   \<and> files (fst (inicializar_streaming (sim JOther (planilha []) []) ''dados/s.txt''
            (fst (inicializar_streaming (sim JOther (planilha []) []) ''dados/s.txt''
                    (mundo\<lparr>files := [''dados/s.txt'' \<mapsto> ''velho'']\<rparr>))))) ''dados/s.txt''
       = Some cabecalho
   \<and> files (fst (inicializar_streaming (sim JOther (planilha []) []) ''dados/s.txt''
            (fst (inicializar_streaming (sim JOther (planilha []) []) ''dados/s.txt''
                    (mundo\<lparr>files := [''dados/s.txt'' \<mapsto> ''velho'']\<rparr>)))))
       = files (fst (inicializar_streaming (sim JOther (planilha []) []) ''dados/s.txt''
                    (mundo\<lparr>files := [''dados/s.txt'' \<mapsto> ''velho'']\<rparr>)))"
proof -
  let ?E = "sim JOther (planilha []) []"
  let ?W = "mundo\<lparr>files := [''dados/s.txt'' \<mapsto> ''velho'']\<rparr>"
  let ?W1 = "fst (inicializar_streaming ?E ''dados/s.txt'' ?W)"
  let ?W2 = "fst (inicializar_streaming ?E ''dados/s.txt'' ?W1)"
  have h1: "snd (inicializar_streaming ?E ''dados/s.txt'' ?W) = Inr ()"
    by code_simp
  have h2: "snd (inicializar_streaming ?E ''dados/s.txt'' ?W1) = Inr ()"
    by code_simp
  show ?thesis
    using inicializar_streaming_idempotente [OF returned [OF h1] returned [OF h2]] h1 h2
    by simp
qed

text \<open>
  C9. For every batch with no valid record: when the run reaches the loop (logging is
  configured, the session is established and the batch is loaded) and
  \<^verbatim>\<open>driver.quit()\<close> returns, \<^verbatim>\<open>main\<close> ends with exit status 0, no spreadsheet
  is written, the warning \<^verbatim>\<open>Nenhum resultado foi gerado\<close> is logged, and the stream log
  holds its header only.
\<close>

theorem lote_sem_validos:
  assumes "main_inicio env environ a w = (w0, Inr cfg)"
    and "preparacao env (arg_user a) (arg_password a) (arg_input a) cfg w0
           = (w1, Inr (sel, sp, drv, registros, inicio))"
    and "validos registros = []"
    and "snd (driver_quit env drv (hidden w1)) = Inr ()"
  shows "\<exists>w'. main env environ a w = (w', 0) \<and> sheets w' = sheets w
           \<and> Log WARNING ''Nenhum resultado foi gerado. Verifique entrada e logs.'' [] \<in> set (logged w')
           \<and> content w' sp = cabecalho"
proof -
  let ?warn = "Log WARNING ''Nenhum resultado foi gerado. Verifique entrada e logs.'' []"
  from laco_sem_validos [OF assms(3)] obtain wl
    where l: "laco env drv sel sp (length registros) inicio 1 registros [] w1 = (wl, Inr [])"
      and fl: "hidden wl = hidden w1" "files wl = files w1" "sheets wl = sheets w1"
    by blast
  let ?w2 = "wl\<lparr>logged := logged wl @ [?warn]\<rparr>"
  have c: "bindE (laco env drv sel sp (length registros) inicio 1 registros [])
             (consolidar env (arg_output a)) w1 = (?w2, Inr ())"
    using l by (simp add: bindE_def consolidar_def logging_def)
  obtain b where q: "driver_quit env drv (hidden w1) = (b, Inr ())"
    using assms(4) by (metis prod.collapse)
  let ?w3 = "?w2\<lparr>finally_runs := Suc (finally_runs ?w2), quit_calls := Suc (quit_calls ?w2),
                 hidden := b, logged := logged ?w2 @ [Log INFO ''Driver finalizado.'' []]\<rparr>"
  have f: "finalizar env (Some drv) ?w2 = (?w3, Inr ())"
    using q fl
    by (simp add: finalizar_def entra_finally_def quit_def call_def bindE_def logging_def)
  have e: "executar_extracao env (arg_user a) (arg_password a) (arg_input a) (arg_output a) cfg w0
             = (?w3, Inr ())"
    unfolding executar_apos_preparacao [OF assms(2)] c prod.case f sum.case by (rule refl)
  let ?w4 = "?w3\<lparr>logged := logged ?w3 @ [Log INFO (''Processo conclu'' @ [CHR 0xED] @ ''do com sucesso.'') []]\<rparr>"
  have m: "main env environ a w = (?w4, 0)"
    using assms(1) e by (simp add: main_def bindE_def logging_def)
  have s0: "sheets w0 = sheets w"
    using keepsD [OF keeps_main_inicio assms(1), of sheets] by simp
  have "sheets ?w4 = sheets w"
    using fl preparacao_frame(2) [OF assms(2)] s0 by simp
  moreover have "?warn \<in> set (logged ?w4)"
    by simp
  moreover have "content ?w4 sp = cabecalho"
    using fl preparacao_frame(1) [OF assms(2)] by (simp add: content_def)
  ultimately show ?thesis using m by blast
qed

theorem lote_sem_validos_witness:
  "snd (main_inicio (sim (JDict seletores) (planilha ['''', ''  '']) []) Map.empty args_exemplo mundo)
     = Inr cfg_padrao
   \<and> snd (preparacao (sim (JDict seletores) (planilha ['''', ''  '']) []) ''u'' ''s'' ''in.xlsx''
            cfg_padrao
            (fst (main_inicio (sim (JDict seletores) (planilha ['''', ''  '']) []) Map.empty
                    args_exemplo mundo)))
       = Inr (seletores, ''./dados/streaming_saida.txt'', 0, records (planilha ['''', ''  '']), 0)
   \<and> validos (records (planilha ['''', ''  ''])) = []
   \<and> (\<exists>w'. main (sim (JDict seletores) (planilha ['''', ''  '']) []) Map.empty args_exemplo mundo
               = (w', 0)
          \<and> sheets w' = sheets mundo
          \<and> Log WARNING ''Nenhum resultado foi gerado. Verifique entrada e logs.'' [] \<in> set (logged w')
          \<and> content w' ''./dados/streaming_saida.txt'' = cabecalho)"
proof -
  let ?E = "sim (JDict seletores) (planilha ['''', ''  '']) []"
  let ?W0 = "fst (main_inicio ?E Map.empty args_exemplo mundo)"
  let ?W1 = "fst (preparacao ?E (arg_user args_exemplo) (arg_password args_exemplo)
                (arg_input args_exemplo) cfg_padrao ?W0)"
  have h1: "snd (main_inicio ?E Map.empty args_exemplo mundo) = Inr cfg_padrao"
    by (simp add: main_inicio_def configurar_logging_def args_exemplo_def run_defs)
  have h2: "snd (preparacao ?E (arg_user args_exemplo) (arg_password args_exemplo)
                (arg_input args_exemplo) cfg_padrao ?W0)
       = Inr (seletores, ''./dados/streaming_saida.txt'', 0, records (planilha ['''', ''  '']), 0)"
    by (simp add: main_inicio_def configurar_logging_def args_exemplo_def run_defs)
  have h3: "validos (records (planilha ['''', ''  ''])) = []"
    by code_simp
  have h4: "snd (driver_quit ?E 0 (hidden ?W1)) = Inr ()"
    by (simp add: sim_def)
  have a: "arg_user args_exemplo = ''u''" "arg_password args_exemplo = ''s''"
    "arg_input args_exemplo = ''in.xlsx''"
    by (simp_all add: args_exemplo_def)
  show ?thesis
    using lote_sem_validos [OF returned [OF h1] returned [OF h2] h3 h4] h1 h2 h3
    unfolding a by blast
qed

text \<open>
  C10. The percentage \<^verbatim>\<open>(idx / total) * 100\<close> never divides by zero. It is computed
  only inside the loop body, and the loop is entered with \<^verbatim>\<open>total = len(registros)\<close>,
  so a body that runs has \<^verbatim>\<open>total >= 1\<close>: neither the loop as
  \<^verbatim>\<open>executar_extracao\<close> calls it, nor the \<^verbatim>\<open>try\<close> body, nor the whole of
  \<^verbatim>\<open>executar_extracao\<close> ever ends with \<^verbatim>\<open>ZeroDivisionError\<close>.
\<close>

theorem nunca_divide_por_zero:
  "snd (laco env drv sel sp (length registros) inicio 1 registros [] w) \<noteq> Inl ZeroDivisionError
   \<and> snd (corpo env usuario senha ce cs cfg sel sp w) \<noteq> Inl ZeroDivisionError
   \<and> snd (executar_extracao env usuario senha ce cs cfg w) \<noteq> Inl ZeroDivisionError"
proof -
  have "snd (laco env drv sel sp (length registros) inicio 1 registros [] w) \<noteq> Inl ZeroDivisionError"
    using nzd_laco [of registros "length registros" env drv sel sp inicio 1 "[]"]
    by (simp add: nzd_def)
  moreover have "snd (executar_extracao env usuario senha ce cs cfg w) \<noteq> Inl ZeroDivisionError"
  proof -
    obtain w1 r where p: "preambulo env cfg w = (w1, r)"
      by (metis prod.collapse)
    show ?thesis
    proof (cases r)
      case (Inl e)
      with p nzdD [OF nzd_preambulo p] show ?thesis by (simp add: executar_extracao_def)
    next
      case (Inr x)
      obtain sel' sp' where x: "x = (sel', sp')" by (cases x)
      obtain w2 d rc where c: "corpo env usuario senha ce cs cfg sel' sp' w1 = ((w2, d), rc)"
        by (metis prod.collapse)
      have rc: "rc \<noteq> Inl ZeroDivisionError"
        using corpo_nzd [of env usuario senha ce cs cfg sel' sp' w1] c by simp
      obtain w3 rf where f: "finalizar env d w2 = (w3, rf)"
        by (metis prod.collapse)
      show ?thesis
        using p Inr x c rc f nzdD [OF nzd_finalizar f]
        by (cases rf) (simp_all add: executar_extracao_def)
    qed
  qed
  ultimately show ?thesis
    using corpo_nzd [of env usuario senha ce cs cfg sel sp w] by simp
qed

theorem nunca_divide_por_zero_witness:
  "snd (laco (sim (JDict seletores) (planilha []) []) 0 seletores ''./dados/streaming_saida.txt''
          (length (records (planilha []))) 0 1 (records (planilha [])) [] mundo)
     \<noteq> Inl ZeroDivisionError
   \<and> snd (corpo (sim (JDict seletores) (planilha []) []) ''u'' ''s'' ''in.xlsx'' ''out/o.xlsx''
            cfg_padrao seletores ''./dados/streaming_saida.txt'' mundo) \<noteq> Inl ZeroDivisionError
   \<and> snd (executar_extracao (sim (JDict seletores) (planilha []) []) ''u'' ''s'' ''in.xlsx''
            ''out/o.xlsx'' cfg_padrao mundo) \<noteq> Inl ZeroDivisionError"
  using nunca_divide_por_zero [of "sim (JDict seletores) (planilha []) []" 0 seletores
      "''./dados/streaming_saida.txt''" "records (planilha [])" 0 mundo "''u''" "''s''"
      "''in.xlsx''" "''out/o.xlsx''" cfg_padrao]
  by simp

end
